theory Spec2Isabelle
  imports Complex_Main "HOL-Library.Word" "HOL-Library.Monad_Syntax"
begin

unbundle bit_operations_syntax

section \<open>Analog sampling: the injected sweep and its completion handler\<close>

text \<open>
  The part of the ADC1 register file the firmware touches: the status register
  and the four injected data registers, one per conversion rank. The registers
  are 32 bits wide; a conversion result occupies the low bits.
\<close>

record adc =
  ADC_SR :: "32 word"
  ADC_JDR1 :: "32 word"
  ADC_JDR2 :: "32 word"
  ADC_JDR3 :: "32 word"
  ADC_JDR4 :: "32 word"

text \<open>The injected end-of-conversion flag is bit 2 of the status register.\<close>

definition ADC_SR_JEOC :: "32 word" where
  "ADC_SR_JEOC = push_bit 2 1"

text \<open>
  \<^verbatim>\<open>adc_read_injected(adc, reg)\<close> of the peripheral library: the data register of
  rank \<open>reg\<close>, and 0 for a rank outside 1..4.
\<close>

definition adc_read_injected :: "adc \<Rightarrow> nat \<Rightarrow> 32 word" where
  "adc_read_injected a reg =
     (if reg = 1 then ADC_JDR1 a
      else if reg = 2 then ADC_JDR2 a
      else if reg = 3 then ADC_JDR3 a
      else if reg = 4 then ADC_JDR4 a
      else 0)"

text \<open>
  The memory shared between the handler and the foreground: the four volatile
  16-bit globals \<^verbatim>\<open>sensor_1\<close> .. \<^verbatim>\<open>sensor_4\<close>, together with the ADC itself.
  There is no other published field.
\<close>

record mcu =
  adc1 :: adc
  sensor_1 :: "16 word"
  sensor_2 :: "16 word"
  sensor_3 :: "16 word"
  sensor_4 :: "16 word"

text \<open>
  \<^verbatim>\<open>adc1_2_isr\<close>: clear JEOC, then copy the four injected data registers, in
  rank order, into the four globals. The assignment to a \<^verbatim>\<open>uint16_t\<close> keeps the
  low 16 bits.
\<close>

definition adc1_2_isr :: "mcu \<Rightarrow> mcu" where
  "adc1_2_isr m =
     (let m0 = m\<lparr>adc1 := (adc1 m)\<lparr>ADC_SR := ADC_SR (adc1 m) AND NOT ADC_SR_JEOC\<rparr>\<rparr>;
          m1 = m0\<lparr>sensor_1 := ucast (adc_read_injected (adc1 m0) 1)\<rparr>;
          m2 = m1\<lparr>sensor_2 := ucast (adc_read_injected (adc1 m1) 2)\<rparr>;
          m3 = m2\<lparr>sensor_3 := ucast (adc_read_injected (adc1 m2) 3)\<rparr>
      in m3\<lparr>sensor_4 := ucast (adc_read_injected (adc1 m3) 4)\<rparr>)"

text \<open>
  One completed sweep: the hardware has loaded the four injected data registers
  and raised JEOC; the handler then runs to completion (it is the only code
  that writes the globals, and the foreground cannot preempt it).
\<close>

record sweep =
  rank1 :: "32 word"
  rank2 :: "32 word"
  rank3 :: "32 word"
  rank4 :: "32 word"

definition sweep_complete :: "sweep \<Rightarrow> mcu \<Rightarrow> mcu" where
  "sweep_complete w m =
     adc1_2_isr (m\<lparr>adc1 := \<lparr>ADC_SR = ADC_SR (adc1 m) OR ADC_SR_JEOC,
                            ADC_JDR1 = rank1 w, ADC_JDR2 = rank2 w,
                            ADC_JDR3 = rank3 w, ADC_JDR4 = rank4 w\<rparr>\<rparr>)"

fun sweeps_complete :: "sweep list \<Rightarrow> mcu \<Rightarrow> mcu" where
  "sweeps_complete [] m = m"
| "sweeps_complete (w # ws) m = sweeps_complete ws (sweep_complete w m)"

text \<open>The frame a sweep publishes when its handler runs undisturbed.\<close>

definition frame_of :: "sweep \<Rightarrow> 16 word \<times> 16 word \<times> 16 word \<times> 16 word" where
  "frame_of w = (ucast (rank1 w), ucast (rank2 w), ucast (rank3 w), ucast (rank4 w))"

text \<open>
  The foreground read in \<^verbatim>\<open>main\<close>: the four globals are read one after the
  other as the arguments of \<^verbatim>\<open>printf\<close>. Each read is one volatile 16-bit load.
  Nothing masks the interrupt, so sweeps may complete between two loads:
  \<open>b12\<close>, \<open>b23\<close> and \<open>b34\<close> are the sweeps completing between the first and
  second, second and third, third and fourth load.
\<close>

definition main_read ::
  "sweep list \<Rightarrow> sweep list \<Rightarrow> sweep list \<Rightarrow> mcu \<Rightarrow>
     16 word \<times> 16 word \<times> 16 word \<times> 16 word" where
  "main_read b12 b23 b34 m =
     (let v1 = sensor_1 m;
          m1 = sweeps_complete b12 m;
          v2 = sensor_2 m1;
          m2 = sweeps_complete b23 m1;
          v3 = sensor_3 m2;
          m3 = sweeps_complete b34 m2;
          v4 = sensor_4 m3
      in (v1, v2, v3, v4))"

text \<open>The state of the globals and the ADC at power-up: all zero.\<close>

definition mcu_reset :: mcu where
  "mcu_reset =
     \<lparr>adc1 = \<lparr>ADC_SR = 0, ADC_JDR1 = 0, ADC_JDR2 = 0, ADC_JDR3 = 0, ADC_JDR4 = 0\<rparr>,
      sensor_1 = 0, sensor_2 = 0, sensor_3 = 0, sensor_4 = 0\<rparr>"

section \<open>Quadrature counters and the distance tracker\<close>

text \<open>
  \<^verbatim>\<open>configure_timer_as_quadrature_encoder\<close> sets the auto-reload register of
  each encoder timer to this period.
\<close>

definition ENCODER_PERIOD :: int where
  "ENCODER_PERIOD = 0xFFFF"

text \<open>
  Modelled from the spec: the tracker's poll operation and the behaviour of the
  counter are not in the sources at hand (only the timer configuration and the
  raw reads \<^verbatim>\<open>read_encoder_left\<close>, \<^verbatim>\<open>read_encoder_right\<close> are). The spec's
  words: the raw counter is fixed-width and wraps modulo \<open>2^16\<close>; forward motion
  increases it. \<open>p\<close> is the net number of encoder edges counted since power-up,
  forward edges positive; the register holds it modulo the period plus one.
\<close>

definition raw_counter :: "int \<Rightarrow> int" where
  "raw_counter p = p mod (ENCODER_PERIOD + 1)"

text \<open>
  Modelled from the spec: the number of times the counter wraps (passes between
  \<open>0xFFFF\<close> and \<open>0\<close>, either way) while the position goes monotonically from
  \<open>p0\<close> to \<open>p1\<close>.
\<close>

definition wraps_between :: "int \<Rightarrow> int \<Rightarrow> nat" where
  "wraps_between p0 p1 =
     nat \<bar>p1 div (ENCODER_PERIOD + 1) - p0 div (ENCODER_PERIOD + 1)\<bar>"

text \<open>
  Modelled from the spec: \<open>delta = (raw_new - raw_old) mod 2^16\<close>.
\<close>

definition counter_delta :: "int \<Rightarrow> int \<Rightarrow> int" where
  "counter_delta raw_new raw_old = (raw_new - raw_old) mod 2 ^ 16"

text \<open>
  Modelled from the spec: the delta is "reinterpreted according to the
  configured counting convention (forward motion increases the counter)" and
  feeds a signed accumulator. The 16-bit residue is read as a signed quantity:
  the lower half of the range is forward motion, the upper half backward
  motion.
\<close>

definition direction_adjusted :: "int \<Rightarrow> int" where
  "direction_adjusted d = (if d < 2 ^ 15 then d else d - 2 ^ 16)"

definition poll_delta :: "int \<Rightarrow> int \<Rightarrow> int" where
  "poll_delta raw_new raw_old = direction_adjusted (counter_delta raw_new raw_old)"

text \<open>
  Modelled from the spec: the per-wheel accumulator, in micrometers, with the
  last raw counter value; \<open>reset_motion\<close> takes the current raw value as the
  baseline and zeroes the accumulator; a poll scales the delta by the
  micrometers-per-count constant \<open>k\<close> and adds it.
\<close>

record cumulative_distance =
  micrometers :: real
  last_raw :: int

definition reset_wheel :: "int \<Rightarrow> cumulative_distance" where
  "reset_wheel raw = \<lparr>micrometers = 0, last_raw = raw\<rparr>"

definition poll_wheel :: "real \<Rightarrow> int \<Rightarrow> cumulative_distance \<Rightarrow> cumulative_distance" where
  "poll_wheel k raw_new w =
     \<lparr>micrometers = micrometers w + k * of_int (poll_delta raw_new (last_raw w)),
      last_raw = raw_new\<rparr>"

fun poll_all :: "real \<Rightarrow> int list \<Rightarrow> cumulative_distance \<Rightarrow> cumulative_distance" where
  "poll_all k [] w = w"
| "poll_all k (r # rs) w = poll_all k rs (poll_wheel k r w)"

text \<open>The deltas the successive polls compute, starting from the baseline.\<close>

fun poll_deltas :: "int \<Rightarrow> int list \<Rightarrow> int list" where
  "poll_deltas r0 [] = []"
| "poll_deltas r0 (r # rs) = poll_delta r r0 # poll_deltas r rs"

text \<open>
  The true edge counts between successive polls of a run through the positions
  \<open>ps\<close>, and the condition that each is smaller than half a counter revolution
  (\<open>2^15\<close> edges) in magnitude.
\<close>

fun true_steps :: "int \<Rightarrow> int list \<Rightarrow> int list" where
  "true_steps p0 [] = []"
| "true_steps p0 (p # ps) = (p - p0) # true_steps p ps"

fun steps_within_half :: "int \<Rightarrow> int list \<Rightarrow> bool" where
  "steps_within_half p0 [] = True"
| "steps_within_half p0 (p # ps) =
     (- (2 ^ 15) < p - p0 \<and> p - p0 < 2 ^ 15 \<and> steps_within_half p ps)"

section \<open>The calibration sequencer\<close>

subsection \<open>The robot as the procedures see it\<close>

text \<open>The three logging functions the procedures call.\<close>

datatype signal = LinearSpeed | AngularSpeed | FrontSensorsCalibration

text \<open>
  The calls a procedure makes on the motion controller and the logging sink.
  Speeds, accelerations and distances are C floating-point values; they are
  carried as reals and only passed on, never rounded here.
\<close>

datatype action =
    DisableWallsControl
  | EnableMotorControl
  | SideSensorsControl bool
  | FrontSensorsControl bool
  | SideSensorsCalibration
  | SetTargetLinearSpeed real
  | SetTargetAngularSpeed real
  | SetLinearAcceleration real
  | SetLinearDeceleration real
  | SetMaxLinearSpeed real
  | Accelerate "32 word" real
  | Decelerate "32 word" real real
  | ResetControlErrors
  | ResetMotion
  | Log signal

text \<open>
  One entry of the run's history: the call, the tick at which it was made and
  the three control switches as the call left them.
\<close>

record observation =
  at_tick :: nat
  side_control :: bool
  front_control :: bool
  motor_control :: bool
  call :: action

record robot =
  side_sensors_control_on :: bool
  front_sensors_control_on :: bool
  motor_control_on :: bool
  target_linear_speed :: real
  target_angular_speed :: real
  linear_acceleration :: real
  linear_deceleration :: real
  max_linear_speed :: real
  clock_ticks :: nat
  encoder_polls :: nat
  history :: "observation list"

text \<open>
  What the procedures take from outside: the encoder (the \<open>n\<close>-th call of
  \<^verbatim>\<open>get_encoder_average_micrometers\<close> made by a procedure returns
  \<open>encoder_average n\<close>), the answer of \<^verbatim>\<open>required_micrometers_to_speed\<close>, the
  time the two ramp helpers take, the conversions of a floating-point value to
  \<^verbatim>\<open>uint32_t\<close> and \<^verbatim>\<open>int32_t\<close> (the rounding of the floating-point
  evaluation is left to them), and the constants of the configuration headers,
  which are not in the sources at hand. \<open>PI\<close> is meant nonzero: the two turn
  profiles divide by \<open>4 * PI\<close>.
\<close>

record world =
  encoder_average :: "nat \<Rightarrow> 32 word"
  required_micrometers :: "real \<Rightarrow> real"
  accelerate_ticks :: nat
  decelerate_ticks :: nat
  float_to_uint32 :: "real \<Rightarrow> nat"
  float_to_int32 :: "real \<Rightarrow> 32 word"
  PI :: real
  CELL_DIMENSION :: real
  WALL_WIDTH :: real
  MOUSE_TAIL :: real
  MOUSE_HEAD :: real
  MICROMETERS_PER_METER :: real

definition observe :: "action \<Rightarrow> robot \<Rightarrow> observation" where
  "observe a s =
     \<lparr>at_tick = clock_ticks s, side_control = side_sensors_control_on s,
      front_control = front_sensors_control_on s, motor_control = motor_control_on s,
      call = a\<rparr>"

definition record_call :: "action \<Rightarrow> robot \<Rightarrow> robot" where
  "record_call a s = s\<lparr>history := history s @ [observe a s]\<rparr>"

subsection \<open>The motion controller's interface\<close>

text \<open>
  The procedures of \<^verbatim>\<open>calibration.c\<close> call the motion controller, the tick clock
  and the logging sink, none of which is in the sources at hand. Each function
  below is modelled from the contract the spec gives it. Every call that
  commands the controller or logs is recorded in the history. The clock of the
  model advances only while the foreground sleeps or a ramp helper runs.
\<close>

text \<open>
  Modelled from the spec: \<^verbatim>\<open>side_sensors_control(bool)\<close>, missing from the
  sources, enables or disables the side-sensor-based safety control.
\<close>

definition side_sensors_control :: "bool \<Rightarrow> robot \<Rightarrow> robot" where
  "side_sensors_control b s = record_call (SideSensorsControl b) (s\<lparr>side_sensors_control_on := b\<rparr>)"

text \<open>
  Modelled from the spec: \<^verbatim>\<open>front_sensors_control(bool)\<close>, missing from the
  sources, enables or disables the front-sensor-based safety control.
\<close>

definition front_sensors_control :: "bool \<Rightarrow> robot \<Rightarrow> robot" where
  "front_sensors_control b s =
     record_call (FrontSensorsControl b) (s\<lparr>front_sensors_control_on := b\<rparr>)"

text \<open>
  Modelled from the spec: \<^verbatim>\<open>disable_walls_control()\<close>, missing from the sources,
  disables every distance/sensor-based safety override, side and front.
\<close>

definition disable_walls_control :: "robot \<Rightarrow> robot" where
  "disable_walls_control s =
     record_call DisableWallsControl
       (s\<lparr>side_sensors_control_on := False, front_sensors_control_on := False\<rparr>)"

text \<open>
  Modelled from the spec: \<^verbatim>\<open>enable_motor_control()\<close>, missing from the sources,
  enables speed/position control.
\<close>

definition enable_motor_control :: "robot \<Rightarrow> robot" where
  "enable_motor_control s = record_call EnableMotorControl (s\<lparr>motor_control_on := True\<rparr>)"

text \<open>
  Modelled from the spec: the setters of the target linear speed (m/s) and the
  target angular speed (rad/s), missing from the sources.
\<close>

definition set_target_linear_speed :: "real \<Rightarrow> robot \<Rightarrow> robot" where
  "set_target_linear_speed v s = record_call (SetTargetLinearSpeed v) (s\<lparr>target_linear_speed := v\<rparr>)"

definition set_target_angular_speed :: "real \<Rightarrow> robot \<Rightarrow> robot" where
  "set_target_angular_speed v s =
     record_call (SetTargetAngularSpeed v) (s\<lparr>target_angular_speed := v\<rparr>)"

text \<open>
  Modelled from the spec: the getters and setters of the linear acceleration,
  the linear deceleration and the maximum linear speed, missing from the
  sources. A getter reads the value the last setter stored.
\<close>

definition get_linear_acceleration :: "robot \<Rightarrow> real" where
  "get_linear_acceleration s = linear_acceleration s"

definition get_linear_deceleration :: "robot \<Rightarrow> real" where
  "get_linear_deceleration s = linear_deceleration s"

definition get_max_linear_speed :: "robot \<Rightarrow> real" where
  "get_max_linear_speed s = max_linear_speed s"

definition set_linear_acceleration :: "real \<Rightarrow> robot \<Rightarrow> robot" where
  "set_linear_acceleration v s = record_call (SetLinearAcceleration v) (s\<lparr>linear_acceleration := v\<rparr>)"

definition set_linear_deceleration :: "real \<Rightarrow> robot \<Rightarrow> robot" where
  "set_linear_deceleration v s = record_call (SetLinearDeceleration v) (s\<lparr>linear_deceleration := v\<rparr>)"

definition set_max_linear_speed :: "real \<Rightarrow> robot \<Rightarrow> robot" where
  "set_max_linear_speed v s = record_call (SetMaxLinearSpeed v) (s\<lparr>max_linear_speed := v\<rparr>)"

text \<open>
  Modelled from the spec: \<^verbatim>\<open>sleep_ticks(n)\<close>, missing from the sources, blocks
  the foreground until \<open>n\<close> ticks have elapsed on the tick clock.
\<close>

definition sleep_ticks :: "nat \<Rightarrow> robot \<Rightarrow> robot" where
  "sleep_ticks n s = s\<lparr>clock_ticks := clock_ticks s + n\<rparr>"

text \<open>
  Modelled from the spec: the three logging functions, missing from the
  sources, each produce one diagnostic record and change nothing else.
\<close>

definition log_linear_speed :: "robot \<Rightarrow> robot" where
  "log_linear_speed s = record_call (Log LinearSpeed) s"

definition log_angular_speed :: "robot \<Rightarrow> robot" where
  "log_angular_speed s = record_call (Log AngularSpeed) s"

definition log_front_sensors_calibration :: "robot \<Rightarrow> robot" where
  "log_front_sensors_calibration s = record_call (Log FrontSensorsCalibration) s"

text \<open>
  Modelled from the spec: \<^verbatim>\<open>get_encoder_average_micrometers()\<close>, missing from
  the sources, returns the signed average distance of both wheels. The value
  comes from the world's trace, one element per call.
\<close>

definition get_encoder_average_micrometers :: "world \<Rightarrow> robot \<Rightarrow> 32 word \<times> robot" where
  "get_encoder_average_micrometers w s =
     (encoder_average w (encoder_polls s), s\<lparr>encoder_polls := Suc (encoder_polls s)\<rparr>)"

text \<open>
  Modelled from the spec: \<^verbatim>\<open>required_micrometers_to_speed(target_speed)\<close>,
  missing from the sources, answers the distance required to reach the target
  speed from the current speed. The answer is the world's.
\<close>

definition required_micrometers_to_speed :: "world \<Rightarrow> real \<Rightarrow> real" where
  "required_micrometers_to_speed w v = required_micrometers w v"

text \<open>
  Modelled from the spec: \<^verbatim>\<open>reset_motion()\<close>, missing from the sources, takes the
  current raw counters as the new baseline and zeroes the distance
  accumulators; these live in the world's encoder trace, so only the call is
  recorded. \<^verbatim>\<open>reset_control_errors()\<close> and \<^verbatim>\<open>side_sensors_calibration()\<close>,
  missing as well, act inside the controller and are recorded likewise.
\<close>

definition reset_motion :: "robot \<Rightarrow> robot" where
  "reset_motion s = record_call ResetMotion s"

definition reset_control_errors :: "robot \<Rightarrow> robot" where
  "reset_control_errors s = record_call ResetControlErrors s"

definition side_sensors_calibration :: "robot \<Rightarrow> robot" where
  "side_sensors_calibration s = record_call SideSensorsCalibration s"

text \<open>
  Modelled from the spec: the ramp helpers \<^verbatim>\<open>accelerate(start, distance)\<close> and
  \<^verbatim>\<open>decelerate(start, distance, target_speed)\<close>, missing from the sources, drive
  the vehicle until the distance is reached and then return. The time they
  take is the world's.
\<close>

definition accelerate :: "world \<Rightarrow> 32 word \<Rightarrow> real \<Rightarrow> robot \<Rightarrow> robot" where
  "accelerate w start distance s =
     sleep_ticks (accelerate_ticks w) (record_call (Accelerate start distance) s)"

definition decelerate :: "world \<Rightarrow> 32 word \<Rightarrow> real \<Rightarrow> real \<Rightarrow> robot \<Rightarrow> robot" where
  "decelerate w start distance speed s =
     sleep_ticks (decelerate_ticks w) (record_call (Decelerate start distance speed) s)"

text \<open>
  Modelled from the spec: \<^verbatim>\<open>each\<close>, missing from the sources.
  \<open>each(interval_ticks, action, total_ticks)\<close> invokes the action once
  immediately, then repeatedly waits \<open>interval_ticks\<close> and invokes it again,
  until the elapsed ticks reach \<open>total_ticks\<close>; the final interval may run
  short. With a zero interval and a positive total it never returns.
\<close>

partial_function (option) each_from ::
  "nat \<Rightarrow> (robot \<Rightarrow> robot) \<Rightarrow> nat \<Rightarrow> nat \<Rightarrow> robot \<Rightarrow> robot option" where
  "each_from interval_ticks f total_ticks elapsed s =
     (let s1 = f s in
      if total_ticks \<le> elapsed + interval_ticks
      then Some (sleep_ticks (total_ticks - elapsed) s1)
      else each_from interval_ticks f total_ticks (elapsed + interval_ticks)
             (sleep_ticks interval_ticks s1))"

definition each :: "nat \<Rightarrow> (robot \<Rightarrow> robot) \<Rightarrow> nat \<Rightarrow> robot \<Rightarrow> robot option" where
  "each interval_ticks f total_ticks s = each_from interval_ticks f total_ticks 0 s"

subsection \<open>The procedures of calibration.c\<close>

text \<open>
  The travel loop of \<^verbatim>\<open>run_linear_speed_profile\<close>. The subtraction and the
  comparison are those of \<^verbatim>\<open>int32_t\<close>.
\<close>

partial_function (option) linear_travel :: "world \<Rightarrow> 32 word \<Rightarrow> robot \<Rightarrow> robot option" where
  "linear_travel w start_micrometers s =
     (let r = get_encoder_average_micrometers w s in
      if fst r - start_micrometers <s 500000
      then linear_travel w start_micrometers (sleep_ticks 1 (log_linear_speed (snd r)))
      else Some (snd r))"

definition run_linear_speed_profile :: "world \<Rightarrow> robot \<Rightarrow> robot option" where
  "run_linear_speed_profile w s0 = do {
     let s1 = disable_walls_control s0;
     let s2 = enable_motor_control s1;
     s3 \<leftarrow> each 10 log_linear_speed 1000 s2;
     let s4 = set_target_angular_speed 0 s3;
     let s5 = set_target_linear_speed (get_max_linear_speed s4) s4;
     let r = get_encoder_average_micrometers w s5;
     s6 \<leftarrow> linear_travel w (fst r) (snd r);
     let s7 = set_target_angular_speed 0 s6;
     let s8 = set_target_linear_speed 0 s7;
     s9 \<leftarrow> each 1 log_linear_speed 2000 s8;
     Some (reset_motion s9)
   }"

definition run_angular_speed_profile :: "world \<Rightarrow> robot \<Rightarrow> robot option" where
  "run_angular_speed_profile w s0 = do {
     let target_angular_speed = 4 * PI w;
     let s1 = disable_walls_control s0;
     let s2 = enable_motor_control s1;
     s3 \<leftarrow> each 10 log_angular_speed 1000 s2;
     let s4 = set_target_angular_speed target_angular_speed s3;
     let s5 = set_target_linear_speed 0 s4;
     s6 \<leftarrow> each 10 log_angular_speed
             (float_to_uint32 w (1000 * (3 * PI w) / target_angular_speed)) s5;
     let s7 = set_target_angular_speed 0 s6;
     let s8 = set_target_linear_speed 0 s7;
     s9 \<leftarrow> each 10 log_angular_speed 2000 s8;
     Some (reset_motion s9)
   }"

definition run_static_turn_right_profile :: "world \<Rightarrow> robot \<Rightarrow> robot option" where
  "run_static_turn_right_profile w s0 = do {
     let target_angular_speed = 4 * PI w;
     let s1 = disable_walls_control s0;
     let s2 = enable_motor_control s1;
     s3 \<leftarrow> each 10 log_angular_speed 1000 s2;
     let s4 = set_target_angular_speed target_angular_speed s3;
     let s5 = set_target_linear_speed 0 s4;
     s6 \<leftarrow> each 10 log_angular_speed
             (float_to_uint32 w (1000 * (PI w / 2) / target_angular_speed)) s5;
     let s7 = set_target_angular_speed 0 s6;
     let s8 = set_target_linear_speed 0 s7;
     s9 \<leftarrow> each 10 log_angular_speed 200 s8;
     Some (reset_motion s9)
   }"

definition run_micrometers_per_count_calibration :: "world \<Rightarrow> nat \<Rightarrow> robot \<Rightarrow> robot" where
  "run_micrometers_per_count_calibration w cells s0 =
     (let saved_linear_acceleration = get_linear_acceleration s0;
          saved_linear_deceleration = get_linear_deceleration s0;
          saved_max_linear_speed = get_max_linear_speed s0;
          s1 = set_linear_acceleration 4 s0;
          s2 = set_linear_deceleration 4 s1;
          s3 = set_max_linear_speed 0.4 s2;
          s4 = reset_motion s3;
          s5 = side_sensors_calibration s4;
          s6 = enable_motor_control s5;
          s7 = side_sensors_control True s6;
          s8 = front_sensors_control False s7;
          r1 = get_encoder_average_micrometers w s8;
          s9 = accelerate w (fst r1)
                 (CELL_DIMENSION w * of_nat cells - WALL_WIDTH w / 2 - MOUSE_TAIL w) (snd r1);
          s10 = disable_walls_control s9;
          r2 = get_encoder_average_micrometers w s10;
          s11 = decelerate w (fst r2)
                  (CELL_DIMENSION w - WALL_WIDTH w / 2 - MOUSE_HEAD w) 0 (snd r2);
          s12 = reset_control_errors s11;
          s13 = set_linear_acceleration saved_linear_acceleration s12;
          s14 = set_linear_deceleration saved_linear_deceleration s13;
          s15 = set_max_linear_speed saved_max_linear_speed s14
      in reset_motion s15)"

text \<open>The approach loop of \<^verbatim>\<open>run_front_sensors_calibration\<close>; it does not sleep.\<close>

partial_function (option) front_approach ::
  "world \<Rightarrow> 32 word \<Rightarrow> 32 word \<Rightarrow> robot \<Rightarrow> robot option" where
  "front_approach w target_micrometers micrometers_to_stop s =
     (let r = get_encoder_average_micrometers w s in
      if fst r <s target_micrometers - micrometers_to_stop
      then front_approach w target_micrometers micrometers_to_stop
             (log_front_sensors_calibration (snd r))
      else Some (snd r))"

text \<open>
  The two thresholds \<^verbatim>\<open>run_front_sensors_calibration\<close> computes before the
  approach: \<^verbatim>\<open>target_micrometers\<close> from the encoder reading \<open>e\<close>, and
  \<^verbatim>\<open>micrometers_to_stop\<close> from the stopping-distance query.
\<close>

definition front_target_micrometers :: "world \<Rightarrow> 32 word \<Rightarrow> 32 word" where
  "front_target_micrometers w e =
     float_to_int32 w (of_int (sint e) + 1.3 * CELL_DIMENSION w * MICROMETERS_PER_METER w)"

definition front_micrometers_to_stop :: "world \<Rightarrow> 32 word" where
  "front_micrometers_to_stop w = float_to_int32 w (required_micrometers_to_speed w 0)"

definition run_front_sensors_calibration :: "world \<Rightarrow> robot \<Rightarrow> robot option" where
  "run_front_sensors_calibration w s0 = do {
     let saved_linear_acceleration = get_linear_acceleration s0;
     let s1 = disable_walls_control s0;
     let s2 = enable_motor_control s1;
     let s3 = set_linear_acceleration 4 s2;
     let r = get_encoder_average_micrometers w s3;
     let target_micrometers = front_target_micrometers w (fst r);
     let s4 = set_target_angular_speed 0 (snd r);
     let s5 = set_target_linear_speed 0.3 s4;
     let micrometers_to_stop = front_micrometers_to_stop w;
     s6 \<leftarrow> front_approach w target_micrometers micrometers_to_stop s5;
     let s7 = set_target_angular_speed 0 s6;
     let s8 = set_target_linear_speed 0 s7;
     s9 \<leftarrow> each 2 log_front_sensors_calibration 200 s8;
     let s10 = set_linear_acceleration saved_linear_acceleration s9;
     Some (reset_motion s10)
   }"

subsection \<open>Runs whose loop has not ended\<close>

text \<open>
  The two procedures with a loop return only if the loop ends. To speak of a
  run at any moment, the same code is read with a bound on the rounds of the
  loop: the loop stops after \<open>n\<close> rounds if it has not ended by then, and the
  flag tells whether it ended. A bounded run whose loop ended goes on as the
  procedure does; one whose loop was stopped yields the state the running
  loop has reached.
\<close>

fun linear_travel_upto :: "nat \<Rightarrow> world \<Rightarrow> 32 word \<Rightarrow> robot \<Rightarrow> bool \<times> robot" where
  "linear_travel_upto 0 w start_micrometers s = (False, s)"
| "linear_travel_upto (Suc n) w start_micrometers s =
     (let r = get_encoder_average_micrometers w s in
      if fst r - start_micrometers <s 500000
      then linear_travel_upto n w start_micrometers (sleep_ticks 1 (log_linear_speed (snd r)))
      else (True, snd r))"

definition run_linear_speed_profile_upto :: "nat \<Rightarrow> world \<Rightarrow> robot \<Rightarrow> robot option" where
  "run_linear_speed_profile_upto n w s0 = do {
     let s1 = disable_walls_control s0;
     let s2 = enable_motor_control s1;
     s3 \<leftarrow> each 10 log_linear_speed 1000 s2;
     let s4 = set_target_angular_speed 0 s3;
     let s5 = set_target_linear_speed (get_max_linear_speed s4) s4;
     let r = get_encoder_average_micrometers w s5;
     let t = linear_travel_upto n w (fst r) (snd r);
     if fst t then do {
       let s7 = set_target_angular_speed 0 (snd t);
       let s8 = set_target_linear_speed 0 s7;
       s9 \<leftarrow> each 1 log_linear_speed 2000 s8;
       Some (reset_motion s9)
     } else Some (snd t)
   }"

fun front_approach_upto ::
  "nat \<Rightarrow> world \<Rightarrow> 32 word \<Rightarrow> 32 word \<Rightarrow> robot \<Rightarrow> bool \<times> robot" where
  "front_approach_upto 0 w target_micrometers micrometers_to_stop s = (False, s)"
| "front_approach_upto (Suc n) w target_micrometers micrometers_to_stop s =
     (let r = get_encoder_average_micrometers w s in
      if fst r <s target_micrometers - micrometers_to_stop
      then front_approach_upto n w target_micrometers micrometers_to_stop
             (log_front_sensors_calibration (snd r))
      else (True, snd r))"

definition run_front_sensors_calibration_upto :: "nat \<Rightarrow> world \<Rightarrow> robot \<Rightarrow> robot option" where
  "run_front_sensors_calibration_upto n w s0 = do {
     let saved_linear_acceleration = get_linear_acceleration s0;
     let s1 = disable_walls_control s0;
     let s2 = enable_motor_control s1;
     let s3 = set_linear_acceleration 4 s2;
     let r = get_encoder_average_micrometers w s3;
     let target_micrometers = front_target_micrometers w (fst r);
     let s4 = set_target_angular_speed 0 (snd r);
     let s5 = set_target_linear_speed 0.3 s4;
     let micrometers_to_stop = front_micrometers_to_stop w;
     let t = front_approach_upto n w target_micrometers micrometers_to_stop s5;
     if fst t then do {
       let s7 = set_target_angular_speed 0 (snd t);
       let s8 = set_target_linear_speed 0 s7;
       s9 \<leftarrow> each 2 log_front_sensors_calibration 200 s8;
       let s10 = set_linear_acceleration saved_linear_acceleration s9;
       Some (reset_motion s10)
     } else Some (snd t)
   }"

text \<open>
  A world in which the vehicle does not advance: the encoder average stays at
  zero, as in a turn in place. Neither loop ends in it.
\<close>

definition stuck_world :: "world \<Rightarrow> world" where
  "stuck_world w = w\<lparr>encoder_average := (\<lambda>n. 0)\<rparr>"

subsection \<open>Reading a run's history\<close>

text \<open>The calls of a run with their ticks, in order.\<close>

definition timeline :: "robot \<Rightarrow> (nat \<times> action) list" where
  "timeline s = map (\<lambda>ob. (at_tick ob, call ob)) (history s)"

text \<open>
  The number of times \<^verbatim>\<open>each\<close> invokes its action, and the records of \<open>n\<close>
  logging calls spaced \<open>i\<close> ticks apart from state \<open>s\<close> on.
\<close>

definition sample_count :: "nat \<Rightarrow> nat \<Rightarrow> nat" where
  "sample_count i T = (if T = 0 then 1 else (T + i - 1) div i)"

definition samples :: "signal \<Rightarrow> nat \<Rightarrow> nat \<Rightarrow> robot \<Rightarrow> observation list" where
  "samples g i n s = map (\<lambda>k. (observe (Log g) s)\<lparr>at_tick := clock_ticks s + k * i\<rparr>) [0..<n]"

text \<open>
  The distance since the start of the travel phase that the linear profile
  computes at the \<open>j\<close>-th poll of its loop, when entered in state \<open>s\<close>: the
  start reading is the procedure's first poll, the loop's polls follow it.
\<close>

definition travelled :: "world \<Rightarrow> robot \<Rightarrow> nat \<Rightarrow> int" where
  "travelled w s j =
     sint (encoder_average w (Suc (encoder_polls s) + j) - encoder_average w (encoder_polls s))"

text \<open>
  The encoder reading at the \<open>j\<close>-th poll of the approach loop of the front
  sensors calibration, and the threshold it is compared with.
\<close>

definition approach_reading :: "world \<Rightarrow> robot \<Rightarrow> nat \<Rightarrow> int" where
  "approach_reading w s j = sint (encoder_average w (Suc (encoder_polls s) + j))"

definition approach_threshold :: "world \<Rightarrow> robot \<Rightarrow> int" where
  "approach_threshold w s =
     sint (front_target_micrometers w (encoder_average w (encoder_polls s))
           - front_micrometers_to_stop w)"

text \<open>
  A run from \<open>s\<close> to \<open>s'\<close> starts with walls control switched off, motor
  control switched on and the stationary pre-log: 100 samples of signal \<open>g\<close>,
  10 ticks apart; every later call is made 1000 ticks after entry or later,
  the first of them a target speed command.
\<close>

definition prelogged :: "signal \<Rightarrow> robot \<Rightarrow> robot \<Rightarrow> bool" where
  "prelogged g s s' =
     (\<exists>v rest. timeline s' = timeline s
         @ [(clock_ticks s, DisableWallsControl), (clock_ticks s, EnableMotorControl)]
         @ map (\<lambda>k. (clock_ticks s + k * 10, Log g)) [0..<100]
         @ (clock_ticks s + 1000, SetTargetAngularSpeed v) # rest
       \<and> list_all (\<lambda>(t, a). clock_ticks s + 1000 \<le> t) rest)"

text \<open>
  A run ends with the settle phase: zero angular and linear target speed at
  some tick \<open>tz\<close>, then \<open>n\<close> samples of signal \<open>g\<close>, \<open>i\<close> ticks apart, then
  \<^verbatim>\<open>reset_motion\<close> exactly \<open>total_ticks\<close> ticks after \<open>tz\<close>, at which tick the run
  returns.
\<close>

definition settled :: "signal \<Rightarrow> nat \<Rightarrow> nat \<Rightarrow> nat \<Rightarrow> robot \<Rightarrow> bool" where
  "settled g i n total_ticks s' =
     (\<exists>pre tz. timeline s' = pre
         @ [(tz, SetTargetAngularSpeed 0), (tz, SetTargetLinearSpeed 0)]
         @ map (\<lambda>k. (tz + k * i, Log g)) [0..<n]
         @ [(tz + total_ticks, ResetMotion)]
       \<and> clock_ticks s' = tz + total_ticks)"

text \<open>The calls that set the vehicle in motion.\<close>

fun is_motion_command :: "action \<Rightarrow> bool" where
  "is_motion_command (SetTargetLinearSpeed v) = (v \<noteq> 0)"
| "is_motion_command (SetTargetAngularSpeed v) = (v \<noteq> 0)"
| "is_motion_command (Accelerate p d) = True"
| "is_motion_command (Decelerate p d v) = True"
| "is_motion_command a = False"

text \<open>The records a run from \<open>s\<close> to \<open>s'\<close> added to the history.\<close>

definition new_history :: "robot \<Rightarrow> robot \<Rightarrow> observation list" where
  "new_history s s' = drop (length (history s)) (history s')"

text \<open>
  Throughout a run both walls controls are off, and motor control is on from
  the second call on (the first call is the one that switches the walls
  controls off).
\<close>

definition walls_off_motor_on :: "robot \<Rightarrow> robot \<Rightarrow> bool" where
  "walls_off_motor_on s s' =
     list_all (\<lambda>ob. \<not> side_control ob \<and> \<not> front_control ob
                 \<and> (call ob = DisableWallsControl \<or> motor_control ob))
       (new_history s s')"

text \<open>
  The record of a call made at tick \<open>t\<close> with both walls controls off and
  motor control on.
\<close>

definition entry :: "nat \<Rightarrow> action \<Rightarrow> observation" where
  "entry t a =
     \<lparr>at_tick = t, side_control = False, front_control = False, motor_control = True,
      call = a\<rparr>"

text \<open>
  In a run from \<open>s\<close> to \<open>s'\<close>, the acceleration ramp is called with side
  sensors control on, front sensors control off and motor control on, and the
  deceleration ramp with both walls controls off and motor control on.
\<close>

definition ramps_controlled :: "robot \<Rightarrow> robot \<Rightarrow> bool" where
  "ramps_controlled s s' =
     list_all (\<lambda>ob. case call ob of
          Accelerate p d \<Rightarrow> side_control ob \<and> \<not> front_control ob \<and> motor_control ob
        | Decelerate p d v \<Rightarrow> \<not> side_control ob \<and> \<not> front_control ob \<and> motor_control ob
        | _ \<Rightarrow> True)
       (new_history s s')"

subsection \<open>A concrete robot and world\<close>

text \<open>
  A robot at rest with the walls controls on and motor control off, and a
  world whose encoder advances 100 mm per poll, with truncating conversions.
\<close>

definition robot_idle :: robot where
  "robot_idle =
     \<lparr>side_sensors_control_on = True, front_sensors_control_on = True,
      motor_control_on = False, target_linear_speed = 0, target_angular_speed = 0,
      linear_acceleration = 2, linear_deceleration = 3, max_linear_speed = 1,
      clock_ticks = 0, encoder_polls = 0, history = []\<rparr>"

definition demo_world :: world where
  "demo_world =
     \<lparr>encoder_average = (\<lambda>n. of_nat n * 100000),
      required_micrometers = (\<lambda>v. 34000),
      accelerate_ticks = 500, decelerate_ticks = 300,
      float_to_uint32 = (\<lambda>x. nat \<lfloor>x\<rfloor>),
      float_to_int32 = (\<lambda>x. word_of_int \<lfloor>x\<rfloor>),
      PI = 3.1415, CELL_DIMENSION = 0.18, WALL_WIDTH = 0.012,
      MOUSE_TAIL = 0.04, MOUSE_HEAD = 0.05, MICROMETERS_PER_METER = 1000000\<rparr>"

section \<open>Properties of the sampling pipeline\<close>

lemma adc1_2_isr_sensors:
  "sensor_1 (adc1_2_isr m) = ucast (ADC_JDR1 (adc1 m))"
  "sensor_2 (adc1_2_isr m) = ucast (ADC_JDR2 (adc1 m))"
  "sensor_3 (adc1_2_isr m) = ucast (ADC_JDR3 (adc1 m))"
  "sensor_4 (adc1_2_isr m) = ucast (ADC_JDR4 (adc1 m))"
  by (simp_all add: adc1_2_isr_def adc_read_injected_def Let_def)

lemma sweep_complete_sensors:
  "sensor_1 (sweep_complete w m) = ucast (rank1 w)"
  "sensor_2 (sweep_complete w m) = ucast (rank2 w)"
  "sensor_3 (sweep_complete w m) = ucast (rank3 w)"
  "sensor_4 (sweep_complete w m) = ucast (rank4 w)"
  by (simp_all add: sweep_complete_def adc1_2_isr_sensors)

text \<open>
  C1 (as the code has it). One run of the handler writes all four globals from
  the sweep that raised it, so a foreground read during which no sweep
  completes returns exactly the frame of the last completed sweep, whatever
  came before.
\<close>

theorem C1_stable_read_is_last_sweep:
  "main_read [] [] [] (sweeps_complete (ws @ [w]) m) = frame_of w"
proof -
  have "sweeps_complete (ws @ [w]) m = sweep_complete w (sweeps_complete ws m)"
    by (induction ws arbitrary: m) simp_all
  then show ?thesis
    by (simp add: main_read_def frame_of_def sweep_complete_sensors)
qed

text \<open>
  C1 fails as stated: nothing keeps a sweep from completing between two of the
  foreground's loads. After sweep A = (1, 1, 1, 1), a read during which sweep
  B = (2, 2, 2, 2) completes after the first load observes (1, 2, 2, 2), which
  is neither A's frame nor B's.
\<close>

theorem C1_torn_read_counterexample:
  "main_read [\<lparr>rank1 = 2, rank2 = 2, rank3 = 2, rank4 = 2\<rparr>] [] []
     (sweep_complete \<lparr>rank1 = 1, rank2 = 1, rank3 = 1, rank4 = 1\<rparr> mcu_reset) = (1, 2, 2, 2)
   \<and> (1, 2, 2, 2) \<noteq> frame_of \<lparr>rank1 = 1, rank2 = 1, rank3 = 1, rank4 = 1\<rparr>
   \<and> (1, 2, 2, 2) \<noteq> frame_of \<lparr>rank1 = 2, rank2 = 2, rank3 = 2, rank4 = 2\<rparr>"
  by (simp add: main_read_def frame_of_def sweep_complete_sensors)

section \<open>Properties of the distance tracker\<close>

lemma counter_delta_raw:
  "counter_delta (raw_counter p1) (raw_counter p0) = (p1 - p0) mod 2 ^ 16"
  by (simp add: counter_delta_def raw_counter_def ENCODER_PERIOD_def mod_diff_eq)

lemma mod_within_half:
  fixes d :: int
  assumes "- (2 ^ 15) \<le> d" and "d < 2 ^ 15"
  shows "d mod 2 ^ 16 = (if 0 \<le> d then d else d + 2 ^ 16)"
proof (cases "0 \<le> d")
  case True
  with assms show ?thesis by simp
next
  case False
  have "d mod 2 ^ 16 = (d + 2 ^ 16) mod 2 ^ 16"
    by (metis mod_add_self2)
  also have "\<dots> = d + 2 ^ 16"
    using False assms by (intro mod_pos_pos_trivial) simp_all
  finally show ?thesis using False by simp
qed

lemma poll_delta_exact:
  assumes "- (2 ^ 15) \<le> p1 - p0" and "p1 - p0 < 2 ^ 15"
  shows "poll_delta (raw_counter p1) (raw_counter p0) = p1 - p0"
proof -
  have m: "(p1 - p0) mod 2 ^ 16 = (if 0 \<le> p1 - p0 then p1 - p0 else p1 - p0 + 2 ^ 16)"
    by (rule mod_within_half [OF assms])
  show ?thesis
    unfolding poll_delta_def counter_delta_raw direction_adjusted_def m
    using assms by simp
qed

lemma poll_deltas_exact:
  "steps_within_half p0 ps \<Longrightarrow>
     poll_deltas (raw_counter p0) (map raw_counter ps) = true_steps p0 ps"
  by (induction ps arbitrary: p0) (simp_all add: poll_delta_exact)

lemma poll_all_sum:
  "micrometers (poll_all k rs w) = micrometers w + k * of_int (sum_list (poll_deltas (last_raw w) rs))"
  by (induction rs arbitrary: w) (simp_all add: poll_wheel_def algebra_simps)

lemma sum_true_steps: "sum_list (true_steps p0 ps) = last (p0 # ps) - p0"
  by (induction ps arbitrary: p0) simp_all

text \<open>
  C2 (amended). The counter holds the position modulo \<open>2^16\<close>. When the true
  edge count between two successive polls is smaller than \<open>2^15\<close> in magnitude,
  the direction-adjusted delta equals it; over a run of polls each within that
  bound, the accumulator equals the scaled sum of the per-poll deltas, which is
  the scaled net edge count of the whole run, however often the counter wrapped.
\<close>

theorem C2_wrap_aware_distance:
  assumes "steps_within_half p0 ps"
  shows "raw_counter p = p mod 2 ^ 16
    \<and> poll_deltas (raw_counter p0) (map raw_counter ps) = true_steps p0 ps
    \<and> micrometers (poll_all k (map raw_counter ps) (reset_wheel (raw_counter p0)))
        = k * of_int (sum_list (poll_deltas (raw_counter p0) (map raw_counter ps)))
    \<and> micrometers (poll_all k (map raw_counter ps) (reset_wheel (raw_counter p0)))
        = k * of_int (last (p0 # ps) - p0)"
proof -
  have "micrometers (poll_all k (map raw_counter ps) (reset_wheel (raw_counter p0)))
        = k * of_int (sum_list (poll_deltas (raw_counter p0) (map raw_counter ps)))"
    by (simp add: poll_all_sum reset_wheel_def)
  moreover have "poll_deltas (raw_counter p0) (map raw_counter ps) = true_steps p0 ps"
    using assms by (rule poll_deltas_exact)
  moreover have "raw_counter p = p mod 2 ^ 16"
    by (simp add: raw_counter_def ENCODER_PERIOD_def)
  ultimately show ?thesis
    by (simp add: sum_true_steps)
qed

text \<open>
  A run of five polls from position 65000 that crosses a wrap boundary twice
  forwards (at 65536 and at 131072) and once backwards (at 131072), with a
  micrometers-per-count constant of 2.
\<close>

theorem C2_wrap_aware_distance_witness:
  "steps_within_half 65000 [66000, 98000, 130000, 131100, 131000]
   \<and> poll_deltas (raw_counter 65000) (map raw_counter [66000, 98000, 130000, 131100, 131000])
       = [1000, 32000, 32000, 1100, -100]
   \<and> micrometers (poll_all 2 (map raw_counter [66000, 98000, 130000, 131100, 131000])
        (reset_wheel (raw_counter 65000))) = 132000"
proof -
  have h: "steps_within_half 65000 [66000, 98000, 130000, 131100, 131000]" by simp
  show ?thesis
    using h C2_wrap_aware_distance [OF h, of 0 2] by simp
qed

text \<open>
  C2 fails as stated: from position 0 to position 70000 the counter wraps once,
  the true edge count is 70000 and the delta is 4464, whether read as signed or
  as unsigned; and from position 0 to position 40000 the counter does not wrap
  at all, yet the direction-adjusted delta is -25536.
\<close>

theorem C2_one_wrap_counterexample:
  "wraps_between 0 70000 = 1
   \<and> counter_delta (raw_counter 70000) (raw_counter 0) = 4464
   \<and> poll_delta (raw_counter 70000) (raw_counter 0) = 4464
   \<and> poll_delta (raw_counter 70000) (raw_counter 0) \<noteq> 70000 - 0
   \<and> wraps_between 0 40000 = 0
   \<and> poll_delta (raw_counter 40000) (raw_counter 0) = - 25536
   \<and> poll_delta (raw_counter 40000) (raw_counter 0) \<noteq> 40000 - 0"
  by (simp add: wraps_between_def poll_delta_def counter_delta_def raw_counter_def
      direction_adjusted_def ENCODER_PERIOD_def)

section \<open>Properties of the calibration sequencer\<close>

subsection \<open>The periodic task and the loops\<close>

text \<open>How many samples a period of \<open>T\<close> ticks holds at interval \<open>i\<close>.\<close>

lemma sample_count_last: "0 < i \<Longrightarrow> T \<le> i \<Longrightarrow> sample_count i T = 1"
  by (auto simp: sample_count_def div_eq_dividend_iff intro!: Euclidean_Rings.div_nat_eqI)

lemma sample_count_step: "0 < i \<Longrightarrow> i < T \<Longrightarrow> sample_count i T = Suc (sample_count i (T - i))"
  by (auto simp: sample_count_def le_div_geq)

lemma samples_Suc:
  "samples g i (Suc n) s =
     observe (Log g) s # samples g i n (sleep_ticks i (record_call (Log g) s))"
  by (simp add: samples_def upt_rec [of 0] map_Suc_upt [symmetric] del: upt_Suc
       add: observe_def sleep_ticks_def record_call_def)

text \<open>
  With a positive interval the periodic task returns: it has logged one sample
  per started interval and slept for the rest of the total, whatever the state
  it started in.
\<close>

lemma each_from_log:
  assumes "0 < i"
  shows "each_from i (record_call (Log g)) T e s =
    Some (s\<lparr>clock_ticks := clock_ticks s + (T - e),
            history := history s @ samples g i (sample_count i (T - e)) s\<rparr>)"
proof (induction "T - e" arbitrary: e s rule: less_induct)
  case less
  show ?case
  proof (cases "T \<le> e + i")
    case True
    then have "sample_count i (T - e) = 1"
      using assms by (intro sample_count_last) simp_all
    with True show ?thesis
      by (subst each_from.simps)
         (simp add: samples_def sleep_ticks_def record_call_def observe_def)
  next
    case False
    then have c: "sample_count i (T - e) = Suc (sample_count i (T - (e + i)))"
      using assms by (simp add: sample_count_step)
    have "T - (e + i) < T - e" using False assms by simp
    from less [OF this] False show ?thesis
      by (subst each_from.simps)
         (simp add: c samples_Suc, simp add: sleep_ticks_def record_call_def)
  qed
qed


text \<open>
  The travel loop of the linear profile: if the poll \<open>k\<close> polls ahead is the
  first whose distance from the start is not below 500000, the loop returns
  after \<open>k\<close> rounds of logging and sleeping one tick.
\<close>

lemma linear_travel_exits:
  assumes "\<forall>j<k. encoder_average w (encoder_polls s + j) - start <s 500000"
    and "\<not> encoder_average w (encoder_polls s + k) - start <s 500000"
  shows "linear_travel w start s =
    Some (s\<lparr>clock_ticks := clock_ticks s + k, encoder_polls := Suc (encoder_polls s + k),
            history := history s @ samples LinearSpeed 1 k s\<rparr>)"
  using assms
proof (induction k arbitrary: s)
  case 0
  then show ?case
    by (subst linear_travel.simps)
       (simp add: get_encoder_average_micrometers_def samples_def)
next
  case (Suc k)
  let ?s' = "sleep_ticks 1 (log_linear_speed (snd (get_encoder_average_micrometers w s)))"
  have p: "encoder_polls ?s' = Suc (encoder_polls s)"
    by (simp add: sleep_ticks_def log_linear_speed_def record_call_def
        get_encoder_average_micrometers_def)
  have a: "\<forall>j<k. encoder_average w (encoder_polls ?s' + j) - start <s 500000"
    using Suc.prems(1) p by (metis Suc_less_eq add_Suc add_Suc_right)
  have b: "\<not> encoder_average w (encoder_polls ?s' + k) - start <s 500000"
    using Suc.prems(2) p by simp
  have "encoder_average w (encoder_polls s + 0) - start <s 500000"
    using Suc.prems(1) by blast
  then have c: "fst (get_encoder_average_micrometers w s) - start <s 500000"
    by (simp add: get_encoder_average_micrometers_def)
  have "linear_travel w start s = linear_travel w start ?s'"
    by (subst linear_travel.simps) (simp add: Let_def c)
  also have "\<dots> = Some (?s'\<lparr>clock_ticks := clock_ticks ?s' + k,
            encoder_polls := Suc (encoder_polls ?s' + k),
            history := history ?s' @ samples LinearSpeed 1 k ?s'\<rparr>)"
    by (rule Suc.IH [OF a b])
  also have "\<dots> = Some (s\<lparr>clock_ticks := clock_ticks s + Suc k,
            encoder_polls := Suc (encoder_polls s + Suc k),
            history := history s @ samples LinearSpeed 1 (Suc k) s\<rparr>)"
    by (simp add: samples_Suc log_linear_speed_def)
       (simp add: sleep_ticks_def record_call_def get_encoder_average_micrometers_def
          samples_def observe_def)
  finally show ?case .
qed

text \<open>The logging functions as actions of the periodic task.\<close>

lemma log_eta:
  "log_linear_speed = record_call (Log LinearSpeed)"
  "log_angular_speed = record_call (Log AngularSpeed)"
  "log_front_sensors_calibration = record_call (Log FrontSensorsCalibration)"
  by (rule ext, simp add: log_linear_speed_def log_angular_speed_def
      log_front_sensors_calibration_def)+

lemma each_log:
  "0 < i \<Longrightarrow> each i (record_call (Log g)) T s =
    Some (s\<lparr>clock_ticks := clock_ticks s + T,
            history := history s @ samples g i (sample_count i T) s\<rparr>)"
  by (simp add: each_def each_from_log)

lemma sample_counts:
  "sample_count 10 1000 = 100" "sample_count 10 2000 = 200" "sample_count 10 200 = 20"
  "sample_count 1 2000 = 2000" "sample_count (Suc 0) 2000 = 2000" "sample_count 2 200 = 100"
  by (simp_all add: sample_count_def)

text \<open>
  Conversely, the travel loop returns only if some poll is not below the
  threshold; the proof is by induction over the loop's unfolding.
\<close>

lemma linear_travel_Some:
  assumes "linear_travel w start s = Some r"
  shows "\<exists>k. (\<forall>j<k. encoder_average w (encoder_polls s + j) - start <s 500000)
           \<and> \<not> encoder_average w (encoder_polls s + k) - start <s 500000"
proof -
  define P where "P = (\<lambda>(w::world) (start::32 word) (s::robot) (r::robot).
     \<exists>k. (\<forall>j<k. encoder_average w (encoder_polls s + j) - start <s 500000)
           \<and> \<not> encoder_average w (encoder_polls s + k) - start <s 500000)"
  have "P w start s r"
  proof (rule linear_travel.raw_induct [of P, OF _ assms])
    fix f w start s r
    assume IH: "\<And>start s b y. f start s b = Some y \<Longrightarrow> P start s b y"
      and body: "(let r = get_encoder_average_micrometers w s
          in if fst r - start <s 500000
             then f w start (sleep_ticks 1 (log_linear_speed (snd r)))
             else Some (snd r)) = Some r"
    show "P w start s r"
    proof (cases "encoder_average w (encoder_polls s) - start <s 500000")
      case False
      then show ?thesis unfolding P_def by (intro exI [of _ 0]) simp
    next
      case True
      let ?s' = "sleep_ticks 1 (log_linear_speed (snd (get_encoder_average_micrometers w s)))"
      have p: "encoder_polls ?s' = Suc (encoder_polls s)"
        by (simp add: sleep_ticks_def log_linear_speed_def record_call_def
            get_encoder_average_micrometers_def)
      from True body have "f w start ?s' = Some r"
        by (simp add: Let_def get_encoder_average_micrometers_def)
      from IH [OF this] obtain k where
        k: "\<forall>j<k. encoder_average w (encoder_polls ?s' + j) - start <s 500000"
           "\<not> encoder_average w (encoder_polls ?s' + k) - start <s 500000"
        unfolding P_def by (elim exE conjE)
      have "\<forall>j<Suc k. encoder_average w (encoder_polls s + j) - start <s 500000"
      proof (intro allI impI)
        fix j assume "j < Suc k"
        show "encoder_average w (encoder_polls s + j) - start <s 500000"
        proof (cases j)
          case 0 with True show ?thesis by simp
        next
          case (Suc i)
          with \<open>j < Suc k\<close> k(1) p show ?thesis by simp
        qed
      qed
      moreover have "\<not> encoder_average w (encoder_polls s + Suc k) - start <s 500000"
        using k(2) p by simp
      ultimately show ?thesis unfolding P_def by (intro exI [of _ "Suc k"] conjI)
    qed
  qed
  then show ?thesis by (simp add: P_def)
qed


subsection \<open>The histories of the procedures\<close>

lemma samples_entry:
  "\<not> side_sensors_control_on s \<Longrightarrow> \<not> front_sensors_control_on s \<Longrightarrow> motor_control_on s \<Longrightarrow>
     samples g i n s = map (\<lambda>k. entry (clock_ticks s + k * i) (Log g)) [0..<n]"
  by (simp add: samples_def observe_def entry_def)

lemmas prims = disable_walls_control_def enable_motor_control_def set_target_angular_speed_def
  set_target_linear_speed_def set_linear_acceleration_def reset_motion_def log_eta each_log
  sample_counts get_encoder_average_micrometers_def get_max_linear_speed_def
  get_linear_acceleration_def record_call_def observe_def

text \<open>
  The run of the linear profile when poll \<open>k\<close> is the first at or above the
  threshold. The states after the pre-log, at the entry of the loop, at its
  exit and after the settle phase are written out as updates of the state on
  entry, and each step of the procedure is checked against them.
\<close>

lemma linear_run:
  assumes a: "\<forall>j<k. travelled w s j < 500000"
    and b: "500000 \<le> travelled w s k"
  shows "\<exists>s'. run_linear_speed_profile w s = Some s'
    \<and> history s' = history s
        @ [(entry (clock_ticks s) DisableWallsControl)\<lparr>motor_control := motor_control_on s\<rparr>,
           entry (clock_ticks s) EnableMotorControl]
        @ map (\<lambda>j. entry (clock_ticks s + j * 10) (Log LinearSpeed)) [0..<100]
        @ [entry (clock_ticks s + 1000) (SetTargetAngularSpeed 0),
           entry (clock_ticks s + 1000) (SetTargetLinearSpeed (max_linear_speed s))]
        @ map (\<lambda>j. entry (clock_ticks s + 1000 + j) (Log LinearSpeed)) [0..<k]
        @ [entry (clock_ticks s + 1000 + k) (SetTargetAngularSpeed 0),
           entry (clock_ticks s + 1000 + k) (SetTargetLinearSpeed 0)]
        @ map (\<lambda>j. entry (clock_ticks s + 1000 + k + j) (Log LinearSpeed)) [0..<2000]
        @ [entry (clock_ticks s + 1000 + k + 2000) ResetMotion]
    \<and> clock_ticks s' = clock_ticks s + 1000 + k + 2000
    \<and> encoder_polls s' = encoder_polls s + k + 2"
proof -
  define t0 where "t0 = clock_ticks s"
  define H3 where "H3 = history s
        @ [(entry t0 DisableWallsControl)\<lparr>motor_control := motor_control_on s\<rparr>,
           entry t0 EnableMotorControl]
        @ map (\<lambda>j. entry (t0 + j * 10) (Log LinearSpeed)) [0..<100]"
  define s3 where "s3 = s\<lparr>side_sensors_control_on := False, front_sensors_control_on := False,
      motor_control_on := True, clock_ticks := t0 + 1000, history := H3\<rparr>"
  define H6 where "H6 = H3 @ [entry (t0 + 1000) (SetTargetAngularSpeed 0),
           entry (t0 + 1000) (SetTargetLinearSpeed (max_linear_speed s))]"
  define s6 where "s6 = s3\<lparr>target_angular_speed := 0, target_linear_speed := max_linear_speed s,
      encoder_polls := Suc (encoder_polls s), history := H6\<rparr>"
  define H7 where "H7 = H6 @ map (\<lambda>j. entry (t0 + 1000 + j) (Log LinearSpeed)) [0..<k]"
  define s7 where "s7 = s6\<lparr>clock_ticks := t0 + 1000 + k,
      encoder_polls := Suc (Suc (encoder_polls s) + k), history := H7\<rparr>"
  define H10 where "H10 = H7 @ [entry (t0 + 1000 + k) (SetTargetAngularSpeed 0),
           entry (t0 + 1000 + k) (SetTargetLinearSpeed 0)]
        @ map (\<lambda>j. entry (t0 + 1000 + k + j) (Log LinearSpeed)) [0..<2000]"
  define s10 where "s10 = s7\<lparr>target_angular_speed := 0, target_linear_speed := 0,
      clock_ticks := t0 + 1000 + k + 2000, history := H10\<rparr>"
  have e1: "each 10 log_linear_speed 1000 (enable_motor_control (disable_walls_control s)) = Some s3"
    by (simp add: prims samples_entry s3_def H3_def t0_def entry_def)
  have e2: "get_encoder_average_micrometers w (set_target_linear_speed
      (get_max_linear_speed (set_target_angular_speed 0 s3)) (set_target_angular_speed 0 s3))
      = (encoder_average w (encoder_polls s), s6)"
    by (simp add: prims s6_def H6_def s3_def entry_def)
  have p: "encoder_polls s6 = Suc (encoder_polls s)"
    by (simp add: s6_def)
  have "linear_travel w (encoder_average w (encoder_polls s)) s6 =
    Some (s6\<lparr>clock_ticks := clock_ticks s6 + k, encoder_polls := Suc (encoder_polls s6 + k),
            history := history s6 @ samples LinearSpeed 1 k s6\<rparr>)"
    using a b by (intro linear_travel_exits) (simp_all add: p travelled_def word_sless_alt)
  also have "\<dots> = Some s7"
    by (simp add: samples_entry s7_def H7_def s6_def s3_def)
  finally have t: "linear_travel w (encoder_average w (encoder_polls s)) s6 = Some s7" .
  have e3: "each 1 log_linear_speed 2000
      (set_target_linear_speed 0 (set_target_angular_speed 0 s7)) = Some s10"
    by (simp add: prims samples_entry s10_def H10_def s7_def s6_def s3_def entry_def add.assoc)
  have run: "run_linear_speed_profile w s = Some (reset_motion s10)"
    unfolding run_linear_speed_profile_def Let_def
    by (simp only: e1 bind.bind_lunit e2 fst_conv snd_conv t e3)
  have "history (reset_motion s10) = H10 @ [entry (t0 + 1000 + k + 2000) ResetMotion]"
    "clock_ticks (reset_motion s10) = t0 + 1000 + k + 2000"
    "encoder_polls (reset_motion s10) = encoder_polls s + k + 2"
    by (simp_all add: prims s10_def s7_def s6_def s3_def entry_def)
  with run show ?thesis
    by (simp add: H10_def H7_def H6_def H3_def t0_def)
qed


text \<open>The approach loop of the front sensors calibration, in the same way.\<close>

lemma front_approach_exits:
  assumes "\<forall>j<k. encoder_average w (encoder_polls s + j) <s target - stop"
    and "\<not> encoder_average w (encoder_polls s + k) <s target - stop"
  shows "front_approach w target stop s =
    Some (s\<lparr>encoder_polls := Suc (encoder_polls s + k),
            history := history s @ samples FrontSensorsCalibration 0 k s\<rparr>)"
  using assms
proof (induction k arbitrary: s)
  case 0
  then show ?case
    by (subst front_approach.simps)
       (simp add: get_encoder_average_micrometers_def samples_def)
next
  case (Suc k)
  let ?s' = "log_front_sensors_calibration (snd (get_encoder_average_micrometers w s))"
  have p: "encoder_polls ?s' = Suc (encoder_polls s)"
    by (simp add: log_front_sensors_calibration_def record_call_def
        get_encoder_average_micrometers_def)
  have a: "\<forall>j<k. encoder_average w (encoder_polls ?s' + j) <s target - stop"
    using Suc.prems(1) p by (metis Suc_less_eq add_Suc add_Suc_right)
  have b: "\<not> encoder_average w (encoder_polls ?s' + k) <s target - stop"
    using Suc.prems(2) p by simp
  have "encoder_average w (encoder_polls s + 0) <s target - stop"
    using Suc.prems(1) by blast
  then have c: "fst (get_encoder_average_micrometers w s) <s target - stop"
    by (simp add: get_encoder_average_micrometers_def)
  have "front_approach w target stop s = front_approach w target stop ?s'"
    by (subst front_approach.simps) (simp add: Let_def c)
  also have "\<dots> = Some (?s'\<lparr>encoder_polls := Suc (encoder_polls ?s' + k),
            history := history ?s' @ samples FrontSensorsCalibration 0 k ?s'\<rparr>)"
    by (rule Suc.IH [OF a b])
  also have "\<dots> = Some (s\<lparr>encoder_polls := Suc (encoder_polls s + Suc k),
            history := history s @ samples FrontSensorsCalibration 0 (Suc k) s\<rparr>)"
    by (simp add: samples_Suc log_front_sensors_calibration_def)
       (simp add: sleep_ticks_def record_call_def get_encoder_average_micrometers_def
          samples_def observe_def)
  finally show ?case .
qed

lemma front_approach_Some:
  assumes "front_approach w target stop s = Some r"
  shows "\<exists>k. (\<forall>j<k. encoder_average w (encoder_polls s + j) <s target - stop)
           \<and> \<not> encoder_average w (encoder_polls s + k) <s target - stop"
proof -
  define P where "P = (\<lambda>(w::world) (target::32 word) (stop::32 word) (s::robot) (r::robot).
     \<exists>k. (\<forall>j<k. encoder_average w (encoder_polls s + j) <s target - stop)
           \<and> \<not> encoder_average w (encoder_polls s + k) <s target - stop)"
  have "P w target stop s r"
  proof (rule front_approach.raw_induct [of P, OF _ assms])
    fix f w target stop s r
    assume IH: "\<And>target stop s b y. f target stop s b = Some y \<Longrightarrow> P target stop s b y"
      and body: "(let r = get_encoder_average_micrometers w s
          in if fst r <s target - stop
             then f w target stop (log_front_sensors_calibration (snd r))
             else Some (snd r)) = Some r"
    show "P w target stop s r"
    proof (cases "encoder_average w (encoder_polls s) <s target - stop")
      case False
      then show ?thesis unfolding P_def by (intro exI [of _ 0]) simp
    next
      case True
      let ?s' = "log_front_sensors_calibration (snd (get_encoder_average_micrometers w s))"
      have p: "encoder_polls ?s' = Suc (encoder_polls s)"
        by (simp add: log_front_sensors_calibration_def record_call_def
            get_encoder_average_micrometers_def)
      from True body have "f w target stop ?s' = Some r"
        by (simp add: Let_def get_encoder_average_micrometers_def)
      from IH [OF this] obtain k where
        k: "\<forall>j<k. encoder_average w (encoder_polls ?s' + j) <s target - stop"
           "\<not> encoder_average w (encoder_polls ?s' + k) <s target - stop"
        unfolding P_def by (elim exE conjE)
      have "\<forall>j<Suc k. encoder_average w (encoder_polls s + j) <s target - stop"
      proof (intro allI impI)
        fix j assume "j < Suc k"
        show "encoder_average w (encoder_polls s + j) <s target - stop"
        proof (cases j)
          case 0 with True show ?thesis by simp
        next
          case (Suc i)
          with \<open>j < Suc k\<close> k(1) p show ?thesis by simp
        qed
      qed
      moreover have "\<not> encoder_average w (encoder_polls s + Suc k) <s target - stop"
        using k(2) p by simp
      ultimately show ?thesis unfolding P_def by (intro exI [of _ "Suc k"] conjI)
    qed
  qed
  then show ?thesis by (simp add: P_def)
qed

lemma front_run:
  assumes a: "\<forall>j<k. approach_reading w s j < approach_threshold w s"
    and b: "approach_threshold w s \<le> approach_reading w s k"
  shows "\<exists>s'. run_front_sensors_calibration w s = Some s'
    \<and> history s' = history s
        @ [(entry (clock_ticks s) DisableWallsControl)\<lparr>motor_control := motor_control_on s\<rparr>,
           entry (clock_ticks s) EnableMotorControl,
           entry (clock_ticks s) (SetLinearAcceleration 4),
           entry (clock_ticks s) (SetTargetAngularSpeed 0),
           entry (clock_ticks s) (SetTargetLinearSpeed 0.3)]
        @ map (\<lambda>j. entry (clock_ticks s) (Log FrontSensorsCalibration)) [0..<k]
        @ [entry (clock_ticks s) (SetTargetAngularSpeed 0),
           entry (clock_ticks s) (SetTargetLinearSpeed 0)]
        @ map (\<lambda>j. entry (clock_ticks s + j * 2) (Log FrontSensorsCalibration)) [0..<100]
        @ [entry (clock_ticks s + 200) (SetLinearAcceleration (linear_acceleration s)),
           entry (clock_ticks s + 200) ResetMotion]
    \<and> clock_ticks s' = clock_ticks s + 200
    \<and> encoder_polls s' = encoder_polls s + k + 2
    \<and> linear_acceleration s' = linear_acceleration s"
proof -
  define t0 where "t0 = clock_ticks s"
  define target where "target = front_target_micrometers w (encoder_average w (encoder_polls s))"
  define stop where "stop = front_micrometers_to_stop w"
  define H3 where "H3 = history s
        @ [(entry t0 DisableWallsControl)\<lparr>motor_control := motor_control_on s\<rparr>,
           entry t0 EnableMotorControl, entry t0 (SetLinearAcceleration 4)]"
  define s3 where "s3 = s\<lparr>side_sensors_control_on := False, front_sensors_control_on := False,
      motor_control_on := True, linear_acceleration := 4, history := H3\<rparr>"
  define H5 where "H5 = H3 @ [entry t0 (SetTargetAngularSpeed 0),
      entry t0 (SetTargetLinearSpeed 0.3)]"
  define s5 where "s5 = s3\<lparr>target_angular_speed := 0, target_linear_speed := 0.3,
      encoder_polls := Suc (encoder_polls s), history := H5\<rparr>"
  define H6 where "H6 = H5 @ map (\<lambda>j. entry t0 (Log FrontSensorsCalibration)) [0..<k]"
  define s6 where "s6 = s5\<lparr>encoder_polls := Suc (Suc (encoder_polls s) + k), history := H6\<rparr>"
  define H9 where "H9 = H6 @ [entry t0 (SetTargetAngularSpeed 0),
      entry t0 (SetTargetLinearSpeed 0)]
      @ map (\<lambda>j. entry (t0 + j * 2) (Log FrontSensorsCalibration)) [0..<100]"
  define s9 where "s9 = s6\<lparr>target_angular_speed := 0, target_linear_speed := 0,
      clock_ticks := t0 + 200, history := H9\<rparr>"
  have e1: "set_linear_acceleration 4 (enable_motor_control (disable_walls_control s)) = s3"
    by (simp add: prims s3_def H3_def t0_def entry_def)
  have e2: "get_encoder_average_micrometers w s3
      = (encoder_average w (encoder_polls s), s3\<lparr>encoder_polls := Suc (encoder_polls s)\<rparr>)"
    by (simp add: prims s3_def)
  have e3: "set_target_linear_speed 0.3 (set_target_angular_speed 0
      (s3\<lparr>encoder_polls := Suc (encoder_polls s)\<rparr>)) = s5"
    by (simp add: prims s5_def H5_def s3_def entry_def t0_def)
  have p: "encoder_polls s5 = Suc (encoder_polls s)"
    by (simp add: s5_def)
  have "front_approach w target stop s5 =
    Some (s5\<lparr>encoder_polls := Suc (encoder_polls s5 + k),
            history := history s5 @ samples FrontSensorsCalibration 0 k s5\<rparr>)"
    using a b
    by (intro front_approach_exits)
       (simp_all add: p approach_reading_def approach_threshold_def word_sless_alt
          target_def stop_def)
  also have "\<dots> = Some s6"
    by (simp add: samples_entry s6_def H6_def s5_def s3_def t0_def)
  finally have t: "front_approach w
      (front_target_micrometers w (encoder_average w (encoder_polls s)))
      (front_micrometers_to_stop w) s5 = Some s6"
    by (simp add: target_def stop_def)
  have e4: "each 2 log_front_sensors_calibration 200
      (set_target_linear_speed 0 (set_target_angular_speed 0 s6)) = Some s9"
    by (simp add: prims samples_entry s9_def H9_def s6_def s5_def s3_def entry_def t0_def)
  have run: "run_front_sensors_calibration w s =
      Some (reset_motion (set_linear_acceleration (get_linear_acceleration s) s9))"
    unfolding run_front_sensors_calibration_def Let_def
    by (simp only: e1 e2 fst_conv snd_conv e3 t bind.bind_lunit e4)
  have "history (reset_motion (set_linear_acceleration (get_linear_acceleration s) s9)) =
      H9 @ [entry (t0 + 200) (SetLinearAcceleration (linear_acceleration s)),
            entry (t0 + 200) ResetMotion]"
    "clock_ticks (reset_motion (set_linear_acceleration (get_linear_acceleration s) s9)) = t0 + 200"
    "encoder_polls (reset_motion (set_linear_acceleration (get_linear_acceleration s) s9))
       = encoder_polls s + k + 2"
    "linear_acceleration (reset_motion (set_linear_acceleration (get_linear_acceleration s) s9))
       = linear_acceleration s"
    by (simp_all add: prims s9_def s6_def s5_def s3_def entry_def)
  with run show ?thesis
    by (simp add: H9_def H6_def H5_def H3_def t0_def)
qed


text \<open>A looping procedure that returns has met its threshold at some first poll.\<close>

lemma linear_returned:
  assumes "run_linear_speed_profile w s = Some s'"
  shows "\<exists>k. (\<forall>j<k. travelled w s j < 500000) \<and> 500000 \<le> travelled w s k"
proof -
  define s6 where "s6 = snd (get_encoder_average_micrometers w (set_target_linear_speed
      (get_max_linear_speed (set_target_angular_speed 0
         (the (each 10 log_linear_speed 1000 (enable_motor_control (disable_walls_control s))))))
      (set_target_angular_speed 0
         (the (each 10 log_linear_speed 1000 (enable_motor_control (disable_walls_control s)))))))"
  have e1: "each 10 log_linear_speed 1000 (enable_motor_control (disable_walls_control s))
      = Some (the (each 10 log_linear_speed 1000 (enable_motor_control (disable_walls_control s))))"
    by (simp add: log_eta each_log)
  have p: "encoder_polls s6 = Suc (encoder_polls s)"
    and st: "fst (get_encoder_average_micrometers w (set_target_linear_speed
      (get_max_linear_speed (set_target_angular_speed 0
         (the (each 10 log_linear_speed 1000 (enable_motor_control (disable_walls_control s))))))
      (set_target_angular_speed 0
         (the (each 10 log_linear_speed 1000 (enable_motor_control (disable_walls_control s)))))))
      = encoder_average w (encoder_polls s)"
    by (simp_all add: s6_def prims)
  from assms have "\<exists>r. linear_travel w (encoder_average w (encoder_polls s)) s6 = Some r"
    unfolding run_linear_speed_profile_def Let_def
    by (subst (asm) e1, simp only: bind.bind_lunit st s6_def [symmetric])
       (auto simp: bind_eq_Some_conv)
  then obtain r where "linear_travel w (encoder_average w (encoder_polls s)) s6 = Some r" ..
  from linear_travel_Some [OF this] show ?thesis
    by (simp add: p travelled_def word_sless_alt not_less)
qed

lemma front_returned:
  assumes "run_front_sensors_calibration w s = Some s'"
  shows "\<exists>k. (\<forall>j<k. approach_reading w s j < approach_threshold w s)
     \<and> approach_threshold w s \<le> approach_reading w s k"
proof -
  define s5 where "s5 = set_target_linear_speed 0.3 (set_target_angular_speed 0
      (snd (get_encoder_average_micrometers w
         (set_linear_acceleration 4 (enable_motor_control (disable_walls_control s))))))"
  have p: "encoder_polls s5 = Suc (encoder_polls s)"
    and st: "fst (get_encoder_average_micrometers w
         (set_linear_acceleration 4 (enable_motor_control (disable_walls_control s))))
      = encoder_average w (encoder_polls s)"
    by (simp_all add: s5_def prims)
  from assms have "\<exists>r. front_approach w
      (front_target_micrometers w (encoder_average w (encoder_polls s)))
      (front_micrometers_to_stop w) s5 = Some r"
    unfolding run_front_sensors_calibration_def Let_def
    by (simp only: st s5_def [symmetric]) (auto simp: bind_eq_Some_conv)
  then obtain r where "front_approach w
      (front_target_micrometers w (encoder_average w (encoder_polls s)))
      (front_micrometers_to_stop w) s5 = Some r" ..
  from front_approach_Some [OF this] show ?thesis
    by (simp add: p approach_reading_def approach_threshold_def word_sless_alt not_less)
qed

text \<open>
  The two turn profiles have no loop of their own and always return. The
  length \<open>h\<close> of the hold phase is whatever the conversion to \<^verbatim>\<open>uint32_t\<close>
  makes of the floating-point quotient.
\<close>

lemma angular_run:
  "\<exists>s' h. run_angular_speed_profile w s = Some s'
    \<and> h = float_to_uint32 w (1000 * (3 * PI w) / (4 * PI w))
    \<and> history s' = history s
        @ [(entry (clock_ticks s) DisableWallsControl)\<lparr>motor_control := motor_control_on s\<rparr>,
           entry (clock_ticks s) EnableMotorControl]
        @ map (\<lambda>j. entry (clock_ticks s + j * 10) (Log AngularSpeed)) [0..<100]
        @ [entry (clock_ticks s + 1000) (SetTargetAngularSpeed (4 * PI w)),
           entry (clock_ticks s + 1000) (SetTargetLinearSpeed 0)]
        @ map (\<lambda>j. entry (clock_ticks s + 1000 + j * 10) (Log AngularSpeed))
            [0..<sample_count 10 h]
        @ [entry (clock_ticks s + 1000 + h) (SetTargetAngularSpeed 0),
           entry (clock_ticks s + 1000 + h) (SetTargetLinearSpeed 0)]
        @ map (\<lambda>j. entry (clock_ticks s + 1000 + h + j * 10) (Log AngularSpeed)) [0..<200]
        @ [entry (clock_ticks s + 1000 + h + 2000) ResetMotion]
    \<and> clock_ticks s' = clock_ticks s + 1000 + h + 2000"
proof -
  define h where "h = float_to_uint32 w (1000 * (3 * PI w) / (4 * PI w))"
  show ?thesis
    unfolding run_angular_speed_profile_def Let_def h_def [symmetric]
    by (simp add: prims samples_entry) (simp add: entry_def add.assoc)
qed

lemma static_run:
  "\<exists>s' h. run_static_turn_right_profile w s = Some s'
    \<and> h = float_to_uint32 w (1000 * (PI w / 2) / (4 * PI w))
    \<and> history s' = history s
        @ [(entry (clock_ticks s) DisableWallsControl)\<lparr>motor_control := motor_control_on s\<rparr>,
           entry (clock_ticks s) EnableMotorControl]
        @ map (\<lambda>j. entry (clock_ticks s + j * 10) (Log AngularSpeed)) [0..<100]
        @ [entry (clock_ticks s + 1000) (SetTargetAngularSpeed (4 * PI w)),
           entry (clock_ticks s + 1000) (SetTargetLinearSpeed 0)]
        @ map (\<lambda>j. entry (clock_ticks s + 1000 + j * 10) (Log AngularSpeed))
            [0..<sample_count 10 h]
        @ [entry (clock_ticks s + 1000 + h) (SetTargetAngularSpeed 0),
           entry (clock_ticks s + 1000 + h) (SetTargetLinearSpeed 0)]
        @ map (\<lambda>j. entry (clock_ticks s + 1000 + h + j * 10) (Log AngularSpeed)) [0..<20]
        @ [entry (clock_ticks s + 1000 + h + 200) ResetMotion]
    \<and> clock_ticks s' = clock_ticks s + 1000 + h + 200"
proof -
  define h where "h = float_to_uint32 w (1000 * (PI w / 2) / (4 * PI w))"
  show ?thesis
    unfolding run_static_turn_right_profile_def Let_def h_def [symmetric]
    by (simp add: prims samples_entry) (simp add: entry_def add.assoc)
qed


text \<open>
  The micrometers-per-count calibration is straight-line code: its history
  and the configuration it leaves.
\<close>

lemma mpc_run:
  "history (run_micrometers_per_count_calibration w cells s) = history s
     @ [observe (SetLinearAcceleration 4) s, observe (SetLinearDeceleration 4) s,
        observe (SetMaxLinearSpeed 0.4) s, observe ResetMotion s,
        observe SideSensorsCalibration s,
        (observe EnableMotorControl s)\<lparr>motor_control := True\<rparr>,
        (observe (SideSensorsControl True) s)\<lparr>side_control := True, motor_control := True\<rparr>,
        (entry (clock_ticks s) (FrontSensorsControl False))\<lparr>side_control := True\<rparr>,
        (entry (clock_ticks s) (Accelerate (encoder_average w (encoder_polls s))
           (CELL_DIMENSION w * of_nat cells - WALL_WIDTH w / 2 - MOUSE_TAIL w)))
           \<lparr>side_control := True\<rparr>,
        entry (clock_ticks s + accelerate_ticks w) DisableWallsControl,
        entry (clock_ticks s + accelerate_ticks w)
          (Decelerate (encoder_average w (Suc (encoder_polls s)))
             (CELL_DIMENSION w - WALL_WIDTH w / 2 - MOUSE_HEAD w) 0),
        entry (clock_ticks s + accelerate_ticks w + decelerate_ticks w) ResetControlErrors,
        entry (clock_ticks s + accelerate_ticks w + decelerate_ticks w)
          (SetLinearAcceleration (linear_acceleration s)),
        entry (clock_ticks s + accelerate_ticks w + decelerate_ticks w)
          (SetLinearDeceleration (linear_deceleration s)),
        entry (clock_ticks s + accelerate_ticks w + decelerate_ticks w)
          (SetMaxLinearSpeed (max_linear_speed s)),
        entry (clock_ticks s + accelerate_ticks w + decelerate_ticks w) ResetMotion]"
  "linear_acceleration (run_micrometers_per_count_calibration w cells s) = linear_acceleration s"
  "linear_deceleration (run_micrometers_per_count_calibration w cells s) = linear_deceleration s"
  "max_linear_speed (run_micrometers_per_count_calibration w cells s) = max_linear_speed s"
  by (simp_all add: run_micrometers_per_count_calibration_def Let_def prims
      set_linear_deceleration_def set_max_linear_speed_def side_sensors_calibration_def
      side_sensors_control_def front_sensors_control_def accelerate_def decelerate_def
      reset_control_errors_def get_linear_deceleration_def sleep_ticks_def entry_def)


text \<open>The concrete world meets both thresholds.\<close>

lemma demo_travel:
  "\<forall>j<4. travelled demo_world robot_idle j < 500000"
  "500000 \<le> travelled demo_world robot_idle 4"
proof -
  show "\<forall>j<4. travelled demo_world robot_idle j < 500000"
  proof (intro allI impI)
    fix j :: nat
    assume "j < 4"
    then consider "j = 0" | "j = 1" | "j = 2" | "j = 3" by arith
    then show "travelled demo_world robot_idle j < 500000"
      by cases (simp_all add: travelled_def demo_world_def robot_idle_def)
  qed
  show "500000 \<le> travelled demo_world robot_idle 4"
    by (simp add: travelled_def demo_world_def robot_idle_def)
qed

lemma demo_approach:
  "\<forall>j<1. approach_reading demo_world robot_idle j < approach_threshold demo_world robot_idle"
  "approach_threshold demo_world robot_idle \<le> approach_reading demo_world robot_idle 1"
  by (simp_all add: approach_reading_def approach_threshold_def demo_world_def robot_idle_def
      front_target_micrometers_def front_micrometers_to_stop_def
      required_micrometers_to_speed_def)

subsection \<open>The phase transitions\<close>

text \<open>
  C3. Linear speed profile: let \<open>k\<close> be the first poll of the travel loop at
  which the distance since the start of the phase, as the procedure computes
  it in \<^verbatim>\<open>int32_t\<close>, is at least 500000 micrometers. Then the procedure
  returns, and between the command of the maximum speed and the command of
  zero speed lie exactly the \<open>k\<close> samples logged after the \<open>k\<close> earlier polls,
  one tick apart: zero speed is commanded right after poll \<open>k\<close> and after no
  earlier one. The procedure polls the encoder \<open>k + 2\<close> times in all: the start
  reading and the polls 0 to \<open>k\<close> of the loop.
\<close>

theorem C3_travel_ends_at_first_poll:
  assumes "\<forall>j<k. travelled w s j < 500000" and "500000 \<le> travelled w s k"
  shows "\<exists>s'. run_linear_speed_profile w s = Some s'
    \<and> timeline s' = timeline s
        @ [(clock_ticks s, DisableWallsControl), (clock_ticks s, EnableMotorControl)]
        @ map (\<lambda>j. (clock_ticks s + j * 10, Log LinearSpeed)) [0..<100]
        @ [(clock_ticks s + 1000, SetTargetAngularSpeed 0),
           (clock_ticks s + 1000, SetTargetLinearSpeed (max_linear_speed s))]
        @ map (\<lambda>j. (clock_ticks s + 1000 + j, Log LinearSpeed)) [0..<k]
        @ [(clock_ticks s + 1000 + k, SetTargetAngularSpeed 0),
           (clock_ticks s + 1000 + k, SetTargetLinearSpeed 0)]
        @ map (\<lambda>j. (clock_ticks s + 1000 + k + j, Log LinearSpeed)) [0..<2000]
        @ [(clock_ticks s + 1000 + k + 2000, ResetMotion)]
    \<and> encoder_polls s' = encoder_polls s + 1 + (k + 1)"
proof -
  from linear_run [OF assms] obtain s' where
    "run_linear_speed_profile w s = Some s'"
    "history s' = history s
        @ [(entry (clock_ticks s) DisableWallsControl)\<lparr>motor_control := motor_control_on s\<rparr>,
           entry (clock_ticks s) EnableMotorControl]
        @ map (\<lambda>j. entry (clock_ticks s + j * 10) (Log LinearSpeed)) [0..<100]
        @ [entry (clock_ticks s + 1000) (SetTargetAngularSpeed 0),
           entry (clock_ticks s + 1000) (SetTargetLinearSpeed (max_linear_speed s))]
        @ map (\<lambda>j. entry (clock_ticks s + 1000 + j) (Log LinearSpeed)) [0..<k]
        @ [entry (clock_ticks s + 1000 + k) (SetTargetAngularSpeed 0),
           entry (clock_ticks s + 1000 + k) (SetTargetLinearSpeed 0)]
        @ map (\<lambda>j. entry (clock_ticks s + 1000 + k + j) (Log LinearSpeed)) [0..<2000]
        @ [entry (clock_ticks s + 1000 + k + 2000) ResetMotion]"
    "encoder_polls s' = encoder_polls s + k + 2"
    by blast
  then show ?thesis
    by (simp add: timeline_def entry_def o_def)
qed

text \<open>
  C3 on the concrete world: the encoder advances 100000 micrometers per poll,
  so the threshold is reached at poll 4 of the loop.
\<close>

theorem C3_travel_ends_at_first_poll_witness:
  "\<exists>s'. run_linear_speed_profile demo_world robot_idle = Some s'
    \<and> timeline s' =
          [(0, DisableWallsControl), (0, EnableMotorControl)]
        @ map (\<lambda>j. (j * 10, Log LinearSpeed)) [0..<100]
        @ [(1000, SetTargetAngularSpeed 0), (1000, SetTargetLinearSpeed 1)]
        @ map (\<lambda>j. (1000 + j, Log LinearSpeed)) [0..<4]
        @ [(1004, SetTargetAngularSpeed 0), (1004, SetTargetLinearSpeed 0)]
        @ map (\<lambda>j. (1004 + j, Log LinearSpeed)) [0..<2000]
        @ [(3004, ResetMotion)]
    \<and> encoder_polls s' = 6"
  using C3_travel_ends_at_first_poll [OF demo_travel]
  by (simp add: robot_idle_def timeline_def)


subsection \<open>What every run satisfies\<close>

lemma linear_history:
  assumes "run_linear_speed_profile w s = Some s'"
  shows "\<exists>k. history s' = history s
        @ [(entry (clock_ticks s) DisableWallsControl)\<lparr>motor_control := motor_control_on s\<rparr>,
           entry (clock_ticks s) EnableMotorControl]
        @ map (\<lambda>j. entry (clock_ticks s + j * 10) (Log LinearSpeed)) [0..<100]
        @ [entry (clock_ticks s + 1000) (SetTargetAngularSpeed 0),
           entry (clock_ticks s + 1000) (SetTargetLinearSpeed (max_linear_speed s))]
        @ map (\<lambda>j. entry (clock_ticks s + 1000 + j) (Log LinearSpeed)) [0..<k]
        @ [entry (clock_ticks s + 1000 + k) (SetTargetAngularSpeed 0),
           entry (clock_ticks s + 1000 + k) (SetTargetLinearSpeed 0)]
        @ map (\<lambda>j. entry (clock_ticks s + 1000 + k + j) (Log LinearSpeed)) [0..<2000]
        @ [entry (clock_ticks s + 1000 + k + 2000) ResetMotion]
    \<and> clock_ticks s' = clock_ticks s + 1000 + k + 2000"
proof -
  from linear_returned [OF assms] obtain k where
    "\<forall>j<k. travelled w s j < 500000" "500000 \<le> travelled w s k" by blast
  from linear_run [OF this] assms show ?thesis by auto
qed

lemma front_history:
  assumes "run_front_sensors_calibration w s = Some s'"
  shows "\<exists>k. history s' = history s
        @ [(entry (clock_ticks s) DisableWallsControl)\<lparr>motor_control := motor_control_on s\<rparr>,
           entry (clock_ticks s) EnableMotorControl,
           entry (clock_ticks s) (SetLinearAcceleration 4),
           entry (clock_ticks s) (SetTargetAngularSpeed 0),
           entry (clock_ticks s) (SetTargetLinearSpeed 0.3)]
        @ map (\<lambda>j. entry (clock_ticks s) (Log FrontSensorsCalibration)) [0..<k]
        @ [entry (clock_ticks s) (SetTargetAngularSpeed 0),
           entry (clock_ticks s) (SetTargetLinearSpeed 0)]
        @ map (\<lambda>j. entry (clock_ticks s + j * 2) (Log FrontSensorsCalibration)) [0..<100]
        @ [entry (clock_ticks s + 200) (SetLinearAcceleration (linear_acceleration s)),
           entry (clock_ticks s + 200) ResetMotion]
    \<and> linear_acceleration s' = linear_acceleration s"
proof -
  from front_returned [OF assms] obtain k where
    "\<forall>j<k. approach_reading w s j < approach_threshold w s"
    "approach_threshold w s \<le> approach_reading w s k" by blast
  from front_run [OF this] assms show ?thesis by auto
qed

lemma walls_off_entries:
  "list_all (\<lambda>ob. \<not> side_control ob \<and> \<not> front_control ob
       \<and> (call ob = DisableWallsControl \<or> motor_control ob)) (map (\<lambda>j. entry (f j) (g j)) xs)"
  by (simp add: list_all_iff entry_def)

lemma linear_facts:
  assumes "run_linear_speed_profile w s = Some s'"
  shows "settled LinearSpeed 1 2000 2000 s' \<and> prelogged LinearSpeed s s'
    \<and> walls_off_motor_on s s'"
proof -
  from linear_history [OF assms] obtain k where
    h: "history s' = history s
        @ [(entry (clock_ticks s) DisableWallsControl)\<lparr>motor_control := motor_control_on s\<rparr>,
           entry (clock_ticks s) EnableMotorControl]
        @ map (\<lambda>j. entry (clock_ticks s + j * 10) (Log LinearSpeed)) [0..<100]
        @ [entry (clock_ticks s + 1000) (SetTargetAngularSpeed 0),
           entry (clock_ticks s + 1000) (SetTargetLinearSpeed (max_linear_speed s))]
        @ map (\<lambda>j. entry (clock_ticks s + 1000 + j) (Log LinearSpeed)) [0..<k]
        @ [entry (clock_ticks s + 1000 + k) (SetTargetAngularSpeed 0),
           entry (clock_ticks s + 1000 + k) (SetTargetLinearSpeed 0)]
        @ map (\<lambda>j. entry (clock_ticks s + 1000 + k + j) (Log LinearSpeed)) [0..<2000]
        @ [entry (clock_ticks s + 1000 + k + 2000) ResetMotion]"
    and c: "clock_ticks s' = clock_ticks s + 1000 + k + 2000" by blast
  have "settled LinearSpeed 1 2000 2000 s'"
    unfolding settled_def
    by (intro exI [of _ "timeline s
        @ [(clock_ticks s, DisableWallsControl), (clock_ticks s, EnableMotorControl)]
        @ map (\<lambda>j. (clock_ticks s + j * 10, Log LinearSpeed)) [0..<100]
        @ [(clock_ticks s + 1000, SetTargetAngularSpeed 0),
           (clock_ticks s + 1000, SetTargetLinearSpeed (max_linear_speed s))]
        @ map (\<lambda>j. (clock_ticks s + 1000 + j, Log LinearSpeed)) [0..<k]"]
        exI [of _ "clock_ticks s + 1000 + k"])
      (simp add: h c timeline_def entry_def o_def)
  moreover have "prelogged LinearSpeed s s'"
    unfolding prelogged_def
    by (intro exI [of _ 0] exI [of _ "
          (clock_ticks s + 1000, SetTargetLinearSpeed (max_linear_speed s))
        # map (\<lambda>j. (clock_ticks s + 1000 + j, Log LinearSpeed)) [0..<k]
        @ [(clock_ticks s + 1000 + k, SetTargetAngularSpeed 0),
           (clock_ticks s + 1000 + k, SetTargetLinearSpeed 0)]
        @ map (\<lambda>j. (clock_ticks s + 1000 + k + j, Log LinearSpeed)) [0..<2000]
        @ [(clock_ticks s + 1000 + k + 2000, ResetMotion)]"])
      (auto simp add: h timeline_def entry_def o_def list_all_iff)
  moreover have "walls_off_motor_on s s'"
    by (simp add: walls_off_motor_on_def new_history_def h walls_off_entries)
       (simp add: entry_def)
  ultimately show ?thesis by blast
qed


lemma angular_facts:
  "\<exists>s'. run_angular_speed_profile w s = Some s' \<and> settled AngularSpeed 10 200 2000 s'
     \<and> prelogged AngularSpeed s s' \<and> walls_off_motor_on s s'"
proof -
  from angular_run [of w s] obtain s' h where
    r: "run_angular_speed_profile w s = Some s'"
    and h: "history s' = history s
        @ [(entry (clock_ticks s) DisableWallsControl)\<lparr>motor_control := motor_control_on s\<rparr>,
           entry (clock_ticks s) EnableMotorControl]
        @ map (\<lambda>j. entry (clock_ticks s + j * 10) (Log AngularSpeed)) [0..<100]
        @ [entry (clock_ticks s + 1000) (SetTargetAngularSpeed (4 * PI w)),
           entry (clock_ticks s + 1000) (SetTargetLinearSpeed 0)]
        @ map (\<lambda>j. entry (clock_ticks s + 1000 + j * 10) (Log AngularSpeed))
            [0..<sample_count 10 h]
        @ [entry (clock_ticks s + 1000 + h) (SetTargetAngularSpeed 0),
           entry (clock_ticks s + 1000 + h) (SetTargetLinearSpeed 0)]
        @ map (\<lambda>j. entry (clock_ticks s + 1000 + h + j * 10) (Log AngularSpeed)) [0..<200]
        @ [entry (clock_ticks s + 1000 + h + 2000) ResetMotion]"
    and c: "clock_ticks s' = clock_ticks s + 1000 + h + 2000" by blast
  have "settled AngularSpeed 10 200 2000 s'"
    unfolding settled_def
    by (intro exI [of _ "timeline s
        @ [(clock_ticks s, DisableWallsControl), (clock_ticks s, EnableMotorControl)]
        @ map (\<lambda>j. (clock_ticks s + j * 10, Log AngularSpeed)) [0..<100]
        @ [(clock_ticks s + 1000, SetTargetAngularSpeed (4 * PI w)),
           (clock_ticks s + 1000, SetTargetLinearSpeed 0)]
        @ map (\<lambda>j. (clock_ticks s + 1000 + j * 10, Log AngularSpeed))
            [0..<sample_count 10 h]"]
        exI [of _ "clock_ticks s + 1000 + h"])
      (simp add: h c timeline_def entry_def o_def)
  moreover have "prelogged AngularSpeed s s'"
    unfolding prelogged_def
    by (intro exI [of _ "4 * PI w"] exI [of _ "
          (clock_ticks s + 1000, SetTargetLinearSpeed 0)
        # map (\<lambda>j. (clock_ticks s + 1000 + j * 10, Log AngularSpeed)) [0..<sample_count 10 h]
        @ [(clock_ticks s + 1000 + h, SetTargetAngularSpeed 0),
           (clock_ticks s + 1000 + h, SetTargetLinearSpeed 0)]
        @ map (\<lambda>j. (clock_ticks s + 1000 + h + j * 10, Log AngularSpeed)) [0..<200]
        @ [(clock_ticks s + 1000 + h + 2000, ResetMotion)]"])
      (auto simp add: h timeline_def entry_def o_def list_all_iff)
  moreover have "walls_off_motor_on s s'"
    by (simp add: walls_off_motor_on_def new_history_def h walls_off_entries)
       (simp add: entry_def)
  ultimately show ?thesis using r by blast
qed

lemma static_facts:
  "\<exists>s'. run_static_turn_right_profile w s = Some s' \<and> settled AngularSpeed 10 20 200 s'
     \<and> prelogged AngularSpeed s s' \<and> walls_off_motor_on s s'"
proof -
  from static_run [of w s] obtain s' h where
    r: "run_static_turn_right_profile w s = Some s'"
    and h: "history s' = history s
        @ [(entry (clock_ticks s) DisableWallsControl)\<lparr>motor_control := motor_control_on s\<rparr>,
           entry (clock_ticks s) EnableMotorControl]
        @ map (\<lambda>j. entry (clock_ticks s + j * 10) (Log AngularSpeed)) [0..<100]
        @ [entry (clock_ticks s + 1000) (SetTargetAngularSpeed (4 * PI w)),
           entry (clock_ticks s + 1000) (SetTargetLinearSpeed 0)]
        @ map (\<lambda>j. entry (clock_ticks s + 1000 + j * 10) (Log AngularSpeed))
            [0..<sample_count 10 h]
        @ [entry (clock_ticks s + 1000 + h) (SetTargetAngularSpeed 0),
           entry (clock_ticks s + 1000 + h) (SetTargetLinearSpeed 0)]
        @ map (\<lambda>j. entry (clock_ticks s + 1000 + h + j * 10) (Log AngularSpeed)) [0..<20]
        @ [entry (clock_ticks s + 1000 + h + 200) ResetMotion]"
    and c: "clock_ticks s' = clock_ticks s + 1000 + h + 200" by blast
  have "settled AngularSpeed 10 20 200 s'"
    unfolding settled_def
    by (intro exI [of _ "timeline s
        @ [(clock_ticks s, DisableWallsControl), (clock_ticks s, EnableMotorControl)]
        @ map (\<lambda>j. (clock_ticks s + j * 10, Log AngularSpeed)) [0..<100]
        @ [(clock_ticks s + 1000, SetTargetAngularSpeed (4 * PI w)),
           (clock_ticks s + 1000, SetTargetLinearSpeed 0)]
        @ map (\<lambda>j. (clock_ticks s + 1000 + j * 10, Log AngularSpeed))
            [0..<sample_count 10 h]"]
        exI [of _ "clock_ticks s + 1000 + h"])
      (simp add: h c timeline_def entry_def o_def)
  moreover have "prelogged AngularSpeed s s'"
    unfolding prelogged_def
    by (intro exI [of _ "4 * PI w"] exI [of _ "
          (clock_ticks s + 1000, SetTargetLinearSpeed 0)
        # map (\<lambda>j. (clock_ticks s + 1000 + j * 10, Log AngularSpeed)) [0..<sample_count 10 h]
        @ [(clock_ticks s + 1000 + h, SetTargetAngularSpeed 0),
           (clock_ticks s + 1000 + h, SetTargetLinearSpeed 0)]
        @ map (\<lambda>j. (clock_ticks s + 1000 + h + j * 10, Log AngularSpeed)) [0..<20]
        @ [(clock_ticks s + 1000 + h + 200, ResetMotion)]"])
      (auto simp add: h timeline_def entry_def o_def list_all_iff)
  moreover have "walls_off_motor_on s s'"
    by (simp add: walls_off_motor_on_def new_history_def h walls_off_entries)
       (simp add: entry_def)
  ultimately show ?thesis using r by blast
qed

lemma front_facts:
  assumes "run_front_sensors_calibration w s = Some s'"
  shows "walls_off_motor_on s s' \<and> linear_acceleration s' = linear_acceleration s"
proof -
  from front_history [OF assms] obtain k where
    h: "history s' = history s
        @ [(entry (clock_ticks s) DisableWallsControl)\<lparr>motor_control := motor_control_on s\<rparr>,
           entry (clock_ticks s) EnableMotorControl,
           entry (clock_ticks s) (SetLinearAcceleration 4),
           entry (clock_ticks s) (SetTargetAngularSpeed 0),
           entry (clock_ticks s) (SetTargetLinearSpeed 0.3)]
        @ map (\<lambda>j. entry (clock_ticks s) (Log FrontSensorsCalibration)) [0..<k]
        @ [entry (clock_ticks s) (SetTargetAngularSpeed 0),
           entry (clock_ticks s) (SetTargetLinearSpeed 0)]
        @ map (\<lambda>j. entry (clock_ticks s + j * 2) (Log FrontSensorsCalibration)) [0..<100]
        @ [entry (clock_ticks s + 200) (SetLinearAcceleration (linear_acceleration s)),
           entry (clock_ticks s + 200) ResetMotion]"
    and a: "linear_acceleration s' = linear_acceleration s" by blast
  have "walls_off_motor_on s s'"
    by (simp add: walls_off_motor_on_def new_history_def h walls_off_entries)
       (simp add: entry_def)
  with a show ?thesis by blast
qed

lemma mpc_ramps: "ramps_controlled s (run_micrometers_per_count_calibration w cells s)"
  by (simp add: ramps_controlled_def new_history_def mpc_run observe_def entry_def)

subsection \<open>Runs whose loop has not ended\<close>

text \<open>
  However many rounds the travel loop has made, it has only logged and slept:
  the state is the one at its entry with the clock advanced, the polls counted
  and one sample per round added.
\<close>

lemma linear_travel_upto_shape:
  "\<exists>m p. snd (linear_travel_upto n w start s) =
     s\<lparr>clock_ticks := clock_ticks s + m, encoder_polls := p,
       history := history s @ samples LinearSpeed 1 m s\<rparr>"
proof (induction n arbitrary: s)
  case 0
  have "snd (linear_travel_upto 0 w start s) =
     s\<lparr>clock_ticks := clock_ticks s + 0, encoder_polls := encoder_polls s,
       history := history s @ samples LinearSpeed 1 0 s\<rparr>"
    by (simp add: samples_def)
  then show ?case by blast
next
  case (Suc n)
  let ?s' = "sleep_ticks 1 (log_linear_speed (snd (get_encoder_average_micrometers w s)))"
  show ?case
  proof (cases "fst (get_encoder_average_micrometers w s) - start <s 500000")
    case True
    from Suc.IH [of ?s'] obtain m p where
      "snd (linear_travel_upto n w start ?s') =
        ?s'\<lparr>clock_ticks := clock_ticks ?s' + m, encoder_polls := p,
          history := history ?s' @ samples LinearSpeed 1 m ?s'\<rparr>" by blast
    also have "\<dots> = s\<lparr>clock_ticks := clock_ticks s + Suc m, encoder_polls := p,
          history := history s @ samples LinearSpeed 1 (Suc m) s\<rparr>"
      by (simp add: samples_Suc log_linear_speed_def)
         (simp add: sleep_ticks_def record_call_def get_encoder_average_micrometers_def
            samples_def observe_def)
    finally have "snd (linear_travel_upto (Suc n) w start s) =
        s\<lparr>clock_ticks := clock_ticks s + Suc m, encoder_polls := p,
          history := history s @ samples LinearSpeed 1 (Suc m) s\<rparr>"
      using True by (simp add: Let_def)
    then show ?thesis by blast
  next
    case False
    then have "snd (linear_travel_upto (Suc n) w start s) =
        s\<lparr>clock_ticks := clock_ticks s + 0, encoder_polls := Suc (encoder_polls s),
          history := history s @ samples LinearSpeed 1 0 s\<rparr>"
      by (simp add: Let_def get_encoder_average_micrometers_def samples_def)
    then show ?thesis by blast
  qed
qed

text \<open>
  The bounded loop agrees with the loop: when it ended within the bound, the
  loop returns the same state, and whatever the loop returns, the bounded loop
  yields for some bound.
\<close>

lemma linear_travel_upto_ended:
  "fst (linear_travel_upto n w start s) \<Longrightarrow>
     linear_travel w start s = Some (snd (linear_travel_upto n w start s))"
proof (induction n arbitrary: s)
  case 0
  then show ?case by simp
next
  case (Suc n)
  show ?case
  proof (cases "fst (get_encoder_average_micrometers w s) - start <s 500000")
    case True
    with Suc.prems have
      "fst (linear_travel_upto n w start
         (sleep_ticks 1 (log_linear_speed (snd (get_encoder_average_micrometers w s)))))"
      by (simp add: Let_def)
    from Suc.IH [OF this] True show ?thesis
      by (subst linear_travel.simps) (simp add: Let_def)
  next
    case False
    then show ?thesis
      by (subst linear_travel.simps) (simp add: Let_def)
  qed
qed

lemma linear_travel_bounded:
  assumes "linear_travel w start s = Some r"
  shows "\<exists>n. linear_travel_upto n w start s = (True, r)"
proof -
  define P where "P = (\<lambda>(w::world) (start::32 word) (s::robot) (r::robot).
     \<exists>n. linear_travel_upto n w start s = (True, r))"
  have "P w start s r"
  proof (rule linear_travel.raw_induct [of P, OF _ assms])
    fix f w start s r
    assume IH: "\<And>start s b y. f start s b = Some y \<Longrightarrow> P start s b y"
      and body: "(let r = get_encoder_average_micrometers w s
          in if fst r - start <s 500000
             then f w start (sleep_ticks 1 (log_linear_speed (snd r)))
             else Some (snd r)) = Some r"
    show "P w start s r"
    proof (cases "fst (get_encoder_average_micrometers w s) - start <s 500000")
      case False
      with body have "linear_travel_upto (Suc 0) w start s = (True, r)"
        by (simp add: Let_def)
      then show ?thesis unfolding P_def by (rule exI)
    next
      case True
      with body have "f w start
          (sleep_ticks 1 (log_linear_speed (snd (get_encoder_average_micrometers w s)))) = Some r"
        by (simp add: Let_def)
      from IH [OF this] obtain n where "linear_travel_upto n w start
          (sleep_ticks 1 (log_linear_speed (snd (get_encoder_average_micrometers w s)))) = (True, r)"
        unfolding P_def by (elim exE)
      with True have "linear_travel_upto (Suc n) w start s = (True, r)"
        by (simp add: Let_def)
      then show ?thesis unfolding P_def by (rule exI)
    qed
  qed
  then show ?thesis by (simp add: P_def)
qed


text \<open>
  Every bounded run of the linear profile, ended or not, starts with the
  pre-log and keeps the walls controls off.
\<close>

lemma linear_upto_facts:
  "\<exists>r. run_linear_speed_profile_upto n w s = Some r \<and> prelogged LinearSpeed s r
     \<and> walls_off_motor_on s r"
proof -
  define t0 where "t0 = clock_ticks s"
  define H3 where "H3 = history s
        @ [(entry t0 DisableWallsControl)\<lparr>motor_control := motor_control_on s\<rparr>,
           entry t0 EnableMotorControl]
        @ map (\<lambda>j. entry (t0 + j * 10) (Log LinearSpeed)) [0..<100]"
  define s3 where "s3 = s\<lparr>side_sensors_control_on := False, front_sensors_control_on := False,
      motor_control_on := True, clock_ticks := t0 + 1000, history := H3\<rparr>"
  define H6 where "H6 = H3 @ [entry (t0 + 1000) (SetTargetAngularSpeed 0),
           entry (t0 + 1000) (SetTargetLinearSpeed (max_linear_speed s))]"
  define s6 where "s6 = s3\<lparr>target_angular_speed := 0, target_linear_speed := max_linear_speed s,
      encoder_polls := Suc (encoder_polls s), history := H6\<rparr>"
  have e1: "each 10 log_linear_speed 1000 (enable_motor_control (disable_walls_control s)) = Some s3"
    by (simp add: prims samples_entry s3_def H3_def t0_def entry_def)
  have e2: "get_encoder_average_micrometers w (set_target_linear_speed
      (get_max_linear_speed (set_target_angular_speed 0 s3)) (set_target_angular_speed 0 s3))
      = (encoder_average w (encoder_polls s), s6)"
    by (simp add: prims s6_def H6_def s3_def entry_def)
  from linear_travel_upto_shape [of n w "encoder_average w (encoder_polls s)" s6]
  obtain m p where "snd (linear_travel_upto n w (encoder_average w (encoder_polls s)) s6) =
     s6\<lparr>clock_ticks := clock_ticks s6 + m, encoder_polls := p,
       history := history s6 @ samples LinearSpeed 1 m s6\<rparr>" by blast
  moreover define H7 where "H7 = H6 @ map (\<lambda>j. entry (t0 + 1000 + j) (Log LinearSpeed)) [0..<m]"
  moreover define s7 where "s7 = s6\<lparr>clock_ticks := t0 + 1000 + m, encoder_polls := p,
      history := H7\<rparr>"
  ultimately have t: "snd (linear_travel_upto n w (encoder_average w (encoder_polls s)) s6) = s7"
    by (simp add: samples_entry s6_def s3_def)
  have pre7: "prelogged LinearSpeed s s7"
    unfolding prelogged_def
    by (intro exI [of _ 0] exI [of _ "
          (t0 + 1000, SetTargetLinearSpeed (max_linear_speed s))
        # map (\<lambda>j. (t0 + 1000 + j, Log LinearSpeed)) [0..<m]"])
      (auto simp add: s7_def H7_def H6_def H3_def t0_def timeline_def entry_def o_def
         list_all_iff)
  have off7: "walls_off_motor_on s s7"
    by (simp add: walls_off_motor_on_def new_history_def s7_def H7_def H6_def H3_def
          walls_off_entries)
       (simp add: entry_def)
  show ?thesis
  proof (cases "fst (linear_travel_upto n w (encoder_average w (encoder_polls s)) s6)")
    case False
    have "run_linear_speed_profile_upto n w s = Some s7"
      unfolding run_linear_speed_profile_upto_def Let_def
      by (simp only: e1 bind.bind_lunit e2 fst_conv snd_conv False if_False t)
    with pre7 off7 show ?thesis by blast
  next
    case True
    define H10 where "H10 = H7 @ [entry (t0 + 1000 + m) (SetTargetAngularSpeed 0),
           entry (t0 + 1000 + m) (SetTargetLinearSpeed 0)]
        @ map (\<lambda>j. entry (t0 + 1000 + m + j) (Log LinearSpeed)) [0..<2000]"
    define s10 where "s10 = s7\<lparr>target_angular_speed := 0, target_linear_speed := 0,
      clock_ticks := t0 + 1000 + m + 2000, history := H10\<rparr>"
    have e3: "each 1 log_linear_speed 2000
        (set_target_linear_speed 0 (set_target_angular_speed 0 s7)) = Some s10"
      by (simp add: prims samples_entry s10_def H10_def s7_def s6_def s3_def entry_def add.assoc)
    have run: "run_linear_speed_profile_upto n w s = Some (reset_motion s10)"
      unfolding run_linear_speed_profile_upto_def Let_def
      by (simp only: e1 bind.bind_lunit e2 fst_conv snd_conv True if_True t e3)
    have h: "history (reset_motion s10) = H10 @ [entry (t0 + 1000 + m + 2000) ResetMotion]"
      by (simp add: prims s10_def s7_def s6_def s3_def entry_def)
    have "prelogged LinearSpeed s (reset_motion s10)"
      unfolding prelogged_def
      by (intro exI [of _ 0] exI [of _ "
            (t0 + 1000, SetTargetLinearSpeed (max_linear_speed s))
          # map (\<lambda>j. (t0 + 1000 + j, Log LinearSpeed)) [0..<m]
          @ [(t0 + 1000 + m, SetTargetAngularSpeed 0), (t0 + 1000 + m, SetTargetLinearSpeed 0)]
          @ map (\<lambda>j. (t0 + 1000 + m + j, Log LinearSpeed)) [0..<2000]
          @ [(t0 + 1000 + m + 2000, ResetMotion)]"])
        (auto simp add: h H10_def H7_def H6_def H3_def t0_def timeline_def entry_def o_def
           list_all_iff)
    moreover have "walls_off_motor_on s (reset_motion s10)"
      by (simp add: walls_off_motor_on_def new_history_def h H10_def H7_def H6_def H3_def
            walls_off_entries)
         (simp add: entry_def)
    ultimately show ?thesis using run by blast
  qed
qed

text \<open>A run that returns is a bounded run.\<close>

lemma linear_upto_agrees:
  assumes "run_linear_speed_profile w s = Some s'"
  shows "\<exists>n. run_linear_speed_profile_upto n w s = Some s'"
proof -
  define s5 where "s5 = set_target_linear_speed
      (get_max_linear_speed (set_target_angular_speed 0
         (the (each 10 log_linear_speed 1000 (enable_motor_control (disable_walls_control s))))))
      (set_target_angular_speed 0
         (the (each 10 log_linear_speed 1000 (enable_motor_control (disable_walls_control s)))))"
  have e1: "each 10 log_linear_speed 1000 (enable_motor_control (disable_walls_control s))
      = Some (the (each 10 log_linear_speed 1000 (enable_motor_control (disable_walls_control s))))"
    by (simp add: log_eta each_log)
  from assms obtain r where
    r: "linear_travel w (fst (get_encoder_average_micrometers w s5))
          (snd (get_encoder_average_micrometers w s5)) = Some r"
    and rest: "each 1 log_linear_speed 2000
          (set_target_linear_speed 0 (set_target_angular_speed 0 r)) \<bind>
          (\<lambda>s9. Some (reset_motion s9)) = Some s'"
    unfolding run_linear_speed_profile_def Let_def
    by (subst (asm) e1, simp only: bind.bind_lunit s5_def [symmetric])
       (auto simp: bind_eq_Some_conv)
  from linear_travel_bounded [OF r] obtain n where
    n: "linear_travel_upto n w (fst (get_encoder_average_micrometers w s5))
          (snd (get_encoder_average_micrometers w s5)) = (True, r)" ..
  have "run_linear_speed_profile_upto n w s = Some s'"
    unfolding run_linear_speed_profile_upto_def Let_def
    by (subst e1, simp only: bind.bind_lunit s5_def [symmetric] n fst_conv snd_conv if_True rest)
  then show ?thesis ..
qed

text \<open>Where the vehicle does not advance the linear profile never returns.\<close>

lemma linear_stuck: "run_linear_speed_profile (stuck_world w) s = None"
proof (cases "run_linear_speed_profile (stuck_world w) s")
  case None
  then show ?thesis .
next
  case (Some s')
  from linear_returned [OF Some] obtain k where "500000 \<le> travelled (stuck_world w) s k"
    by blast
  then show ?thesis by (simp add: travelled_def stuck_world_def)
qed


text \<open>The same for the approach loop of the front sensors calibration.\<close>

lemma front_approach_upto_shape:
  "\<exists>m p. snd (front_approach_upto n w target stop s) =
     s\<lparr>encoder_polls := p, history := history s @ samples FrontSensorsCalibration 0 m s\<rparr>"
proof (induction n arbitrary: s)
  case 0
  have "snd (front_approach_upto 0 w target stop s) =
     s\<lparr>encoder_polls := encoder_polls s,
       history := history s @ samples FrontSensorsCalibration 0 0 s\<rparr>"
    by (simp add: samples_def)
  then show ?case by blast
next
  case (Suc n)
  let ?s' = "log_front_sensors_calibration (snd (get_encoder_average_micrometers w s))"
  show ?case
  proof (cases "fst (get_encoder_average_micrometers w s) <s target - stop")
    case True
    from Suc.IH [of ?s'] obtain m p where
      "snd (front_approach_upto n w target stop ?s') =
        ?s'\<lparr>encoder_polls := p,
          history := history ?s' @ samples FrontSensorsCalibration 0 m ?s'\<rparr>" by blast
    also have "\<dots> = s\<lparr>encoder_polls := p,
          history := history s @ samples FrontSensorsCalibration 0 (Suc m) s\<rparr>"
      by (simp add: samples_Suc log_front_sensors_calibration_def)
         (simp add: sleep_ticks_def record_call_def get_encoder_average_micrometers_def
            samples_def observe_def)
    finally have "snd (front_approach_upto (Suc n) w target stop s) =
        s\<lparr>encoder_polls := p,
          history := history s @ samples FrontSensorsCalibration 0 (Suc m) s\<rparr>"
      using True by (simp add: Let_def)
    then show ?thesis by blast
  next
    case False
    then have "snd (front_approach_upto (Suc n) w target stop s) =
        s\<lparr>encoder_polls := Suc (encoder_polls s),
          history := history s @ samples FrontSensorsCalibration 0 0 s\<rparr>"
      by (simp add: Let_def get_encoder_average_micrometers_def samples_def)
    then show ?thesis by blast
  qed
qed

lemma front_approach_bounded:
  assumes "front_approach w target stop s = Some r"
  shows "\<exists>n. front_approach_upto n w target stop s = (True, r)"
proof -
  define P where "P = (\<lambda>(w::world) (target::32 word) (stop::32 word) (s::robot) (r::robot).
     \<exists>n. front_approach_upto n w target stop s = (True, r))"
  have "P w target stop s r"
  proof (rule front_approach.raw_induct [of P, OF _ assms])
    fix f w target stop s r
    assume IH: "\<And>target stop s b y. f target stop s b = Some y \<Longrightarrow> P target stop s b y"
      and body: "(let r = get_encoder_average_micrometers w s
          in if fst r <s target - stop
             then f w target stop (log_front_sensors_calibration (snd r))
             else Some (snd r)) = Some r"
    show "P w target stop s r"
    proof (cases "fst (get_encoder_average_micrometers w s) <s target - stop")
      case False
      with body have "front_approach_upto (Suc 0) w target stop s = (True, r)"
        by (simp add: Let_def)
      then show ?thesis unfolding P_def by (rule exI)
    next
      case True
      with body have "f w target stop
          (log_front_sensors_calibration (snd (get_encoder_average_micrometers w s))) = Some r"
        by (simp add: Let_def)
      from IH [OF this] obtain n where "front_approach_upto n w target stop
          (log_front_sensors_calibration (snd (get_encoder_average_micrometers w s))) = (True, r)"
        unfolding P_def by (elim exE)
      with True have "front_approach_upto (Suc n) w target stop s = (True, r)"
        by (simp add: Let_def)
      then show ?thesis unfolding P_def by (rule exI)
    qed
  qed
  then show ?thesis by (simp add: P_def)
qed

lemma front_upto_facts:
  "\<exists>r. run_front_sensors_calibration_upto n w s = Some r \<and> walls_off_motor_on s r"
proof -
  define t0 where "t0 = clock_ticks s"
  define H3 where "H3 = history s
        @ [(entry t0 DisableWallsControl)\<lparr>motor_control := motor_control_on s\<rparr>,
           entry t0 EnableMotorControl, entry t0 (SetLinearAcceleration 4)]"
  define s3 where "s3 = s\<lparr>side_sensors_control_on := False, front_sensors_control_on := False,
      motor_control_on := True, linear_acceleration := 4, history := H3\<rparr>"
  define H5 where "H5 = H3 @ [entry t0 (SetTargetAngularSpeed 0),
      entry t0 (SetTargetLinearSpeed 0.3)]"
  define s5 where "s5 = s3\<lparr>target_angular_speed := 0, target_linear_speed := 0.3,
      encoder_polls := Suc (encoder_polls s), history := H5\<rparr>"
  have e1: "set_linear_acceleration 4 (enable_motor_control (disable_walls_control s)) = s3"
    by (simp add: prims s3_def H3_def t0_def entry_def)
  have e2: "get_encoder_average_micrometers w s3
      = (encoder_average w (encoder_polls s), s3\<lparr>encoder_polls := Suc (encoder_polls s)\<rparr>)"
    by (simp add: prims s3_def)
  have e3: "set_target_linear_speed 0.3 (set_target_angular_speed 0
      (s3\<lparr>encoder_polls := Suc (encoder_polls s)\<rparr>)) = s5"
    by (simp add: prims s5_def H5_def s3_def entry_def t0_def)
  define target where "target = front_target_micrometers w (encoder_average w (encoder_polls s))"
  define stop where "stop = front_micrometers_to_stop w"
  from front_approach_upto_shape [of n w target stop s5]
  obtain m p where "snd (front_approach_upto n w target stop s5) =
     s5\<lparr>encoder_polls := p,
       history := history s5 @ samples FrontSensorsCalibration 0 m s5\<rparr>" by blast
  moreover define H6 where "H6 = H5 @ map (\<lambda>j. entry t0 (Log FrontSensorsCalibration)) [0..<m]"
  moreover define s6 where "s6 = s5\<lparr>encoder_polls := p, history := H6\<rparr>"
  ultimately have t: "snd (front_approach_upto n w target stop s5) = s6"
    by (simp add: samples_entry s5_def s3_def t0_def)
  have off6: "walls_off_motor_on s s6"
    by (simp add: walls_off_motor_on_def new_history_def s6_def H6_def H5_def H3_def
          walls_off_entries)
       (simp add: entry_def)
  show ?thesis
  proof (cases "fst (front_approach_upto n w target stop s5)")
    case False
    have "run_front_sensors_calibration_upto n w s = Some s6"
      unfolding run_front_sensors_calibration_upto_def Let_def
      by (simp only: e1 e2 fst_conv snd_conv e3 target_def [symmetric] stop_def [symmetric]
          False if_False t)
    with off6 show ?thesis by blast
  next
    case True
    define H9 where "H9 = H6 @ [entry t0 (SetTargetAngularSpeed 0),
      entry t0 (SetTargetLinearSpeed 0)]
      @ map (\<lambda>j. entry (t0 + j * 2) (Log FrontSensorsCalibration)) [0..<100]"
    define s9 where "s9 = s6\<lparr>target_angular_speed := 0, target_linear_speed := 0,
      clock_ticks := t0 + 200, history := H9\<rparr>"
    have e4: "each 2 log_front_sensors_calibration 200
        (set_target_linear_speed 0 (set_target_angular_speed 0 s6)) = Some s9"
      by (simp add: prims samples_entry s9_def H9_def s6_def s5_def s3_def entry_def t0_def)
    have run: "run_front_sensors_calibration_upto n w s =
        Some (reset_motion (set_linear_acceleration (get_linear_acceleration s) s9))"
      unfolding run_front_sensors_calibration_upto_def Let_def
      by (simp only: e1 e2 fst_conv snd_conv e3 target_def [symmetric] stop_def [symmetric]
          True if_True t e4 bind.bind_lunit)
    have h: "history (reset_motion (set_linear_acceleration (get_linear_acceleration s) s9)) =
        H9 @ [entry (t0 + 200) (SetLinearAcceleration (linear_acceleration s)),
              entry (t0 + 200) ResetMotion]"
      by (simp add: prims s9_def s6_def s5_def s3_def entry_def)
    have "walls_off_motor_on s
        (reset_motion (set_linear_acceleration (get_linear_acceleration s) s9))"
      by (simp add: walls_off_motor_on_def new_history_def h H9_def H6_def H5_def H3_def
            walls_off_entries)
         (simp add: entry_def)
    with run show ?thesis by blast
  qed
qed

lemma front_upto_agrees:
  assumes "run_front_sensors_calibration w s = Some s'"
  shows "\<exists>n. run_front_sensors_calibration_upto n w s = Some s'"
proof -
  define s3 where "s3 = set_linear_acceleration 4 (enable_motor_control (disable_walls_control s))"
  define s5 where "s5 = set_target_linear_speed 0.3 (set_target_angular_speed 0
      (snd (get_encoder_average_micrometers w s3)))"
  define target where "target = front_target_micrometers w (fst (get_encoder_average_micrometers w s3))"
  from assms obtain r where
    r: "front_approach w target (front_micrometers_to_stop w) s5 = Some r"
    and rest: "each 2 log_front_sensors_calibration 200
          (set_target_linear_speed 0 (set_target_angular_speed 0 r)) \<bind>
          (\<lambda>s9. Some (reset_motion (set_linear_acceleration (get_linear_acceleration s) s9)))
          = Some s'"
    unfolding run_front_sensors_calibration_def Let_def
    by (simp only: s3_def [symmetric] s5_def [symmetric] target_def [symmetric])
       (auto simp: bind_eq_Some_conv)
  from front_approach_bounded [OF r] obtain n where
    n: "front_approach_upto n w target (front_micrometers_to_stop w) s5 = (True, r)" ..
  have "run_front_sensors_calibration_upto n w s = Some s'"
    unfolding run_front_sensors_calibration_upto_def Let_def
    by (simp only: s3_def [symmetric] s5_def [symmetric] target_def [symmetric] n
        fst_conv snd_conv if_True rest)
  then show ?thesis ..
qed

lemma front_stuck:
  assumes "0 < approach_threshold (stuck_world w) s"
  shows "run_front_sensors_calibration (stuck_world w) s = None"
proof (cases "run_front_sensors_calibration (stuck_world w) s")
  case None
  then show ?thesis .
next
  case (Some s')
  from front_returned [OF Some] obtain k where
    "approach_threshold (stuck_world w) s \<le> approach_reading (stuck_world w) s k"
    by blast
  with assms show ?thesis by (simp add: approach_reading_def stuck_world_def)
qed

lemma demo_stuck_threshold: "approach_threshold (stuck_world demo_world) robot_idle = 200000"
  by (simp add: approach_threshold_def stuck_world_def demo_world_def robot_idle_def
      front_target_micrometers_def front_micrometers_to_stop_def
      required_micrometers_to_speed_def)


text \<open>The looping procedures under the premise that their threshold is met.\<close>

lemma linear_settles:
  assumes "\<forall>j<k. travelled w s j < 500000" and "500000 \<le> travelled w s k"
  shows "\<exists>s1. run_linear_speed_profile w s = Some s1 \<and> settled LinearSpeed 1 2000 2000 s1"
proof -
  from linear_run [OF assms] obtain s1 where r: "run_linear_speed_profile w s = Some s1"
    by blast
  from linear_facts [OF r] r show ?thesis by blast
qed

lemma front_restores:
  assumes "\<forall>j<k. approach_reading w s j < approach_threshold w s"
    and "approach_threshold w s \<le> approach_reading w s k"
  shows "\<exists>s'. run_front_sensors_calibration w s = Some s'
    \<and> linear_acceleration s' = linear_acceleration s"
  using front_run [OF assms] by blast


subsection \<open>Pre-log, settle phase, configuration and controls\<close>

text \<open>
  C5. After zero target speed is commanded, logging goes on for exactly the
  settle duration, whatever the encoder and the state on entry. The linear
  profile commands zero speed when its travel loop ends: if the threshold is
  met at some first poll it returns, and whenever it returns its history ends
  with the two zero commands, 2000 samples one tick apart and \<^verbatim>\<open>reset_motion\<close>
  2000 ticks after the commands. The angular profile and the static turn
  always return, with 200 and 20 samples ten ticks apart and \<^verbatim>\<open>reset_motion\<close>
  2000 and 200 ticks after the zero commands.
\<close>

theorem C5_settle_phase:
  "(\<forall>k. (\<forall>j<k. travelled w s j < 500000) \<and> 500000 \<le> travelled w s k \<longrightarrow>
       (\<exists>s1. run_linear_speed_profile w s = Some s1 \<and> settled LinearSpeed 1 2000 2000 s1))
    \<and> (\<forall>s1. run_linear_speed_profile w s = Some s1 \<longrightarrow> settled LinearSpeed 1 2000 2000 s1)
    \<and> (\<exists>s2. run_angular_speed_profile w s = Some s2 \<and> settled AngularSpeed 10 200 2000 s2)
    \<and> (\<exists>s3. run_static_turn_right_profile w s = Some s3 \<and> settled AngularSpeed 10 20 200 s3)"
proof (intro conjI allI impI)
  fix k
  assume "(\<forall>j<k. travelled w s j < 500000) \<and> 500000 \<le> travelled w s k"
  then show "\<exists>s1. run_linear_speed_profile w s = Some s1 \<and> settled LinearSpeed 1 2000 2000 s1"
    using linear_settles [of k w s] by blast
next
  fix s1
  assume "run_linear_speed_profile w s = Some s1"
  from linear_facts [OF this] show "settled LinearSpeed 1 2000 2000 s1" by blast
next
  from angular_facts [of w s]
  show "\<exists>s2. run_angular_speed_profile w s = Some s2 \<and> settled AngularSpeed 10 200 2000 s2"
    by blast
next
  from static_facts [of w s]
  show "\<exists>s3. run_static_turn_right_profile w s = Some s3 \<and> settled AngularSpeed 10 20 200 s3"
    by blast
qed

text \<open>
  C5 on the concrete world, where the linear profile returns, and on the world
  where the vehicle does not advance, where it never returns and the two turn
  profiles settle all the same.
\<close>

theorem C5_settle_phase_witness:
  "(\<exists>s1. run_linear_speed_profile demo_world robot_idle = Some s1
        \<and> settled LinearSpeed 1 2000 2000 s1)
    \<and> run_linear_speed_profile (stuck_world demo_world) robot_idle = None
    \<and> (\<exists>s2. run_angular_speed_profile (stuck_world demo_world) robot_idle = Some s2
          \<and> settled AngularSpeed 10 200 2000 s2)
    \<and> (\<exists>s3. run_static_turn_right_profile (stuck_world demo_world) robot_idle = Some s3
          \<and> settled AngularSpeed 10 20 200 s3)"
proof -
  from demo_travel have
    "(\<forall>j<4. travelled demo_world robot_idle j < 500000)
       \<and> 500000 \<le> travelled demo_world robot_idle 4" by blast
  with C5_settle_phase [of demo_world robot_idle]
  have "\<exists>s1. run_linear_speed_profile demo_world robot_idle = Some s1
        \<and> settled LinearSpeed 1 2000 2000 s1" by blast
  with C5_settle_phase [of "stuck_world demo_world" robot_idle] linear_stuck [of demo_world robot_idle]
  show ?thesis by blast
qed

text \<open>
  C10. In the linear profile, the angular profile and the static turn, the
  calls made before the first target speed command are the two control
  switches and the 100 samples of the pre-log, ten ticks apart; the first
  target speed command and every later call come 1000 ticks after entry or
  later. For the linear profile this holds of every run, whether its travel
  loop has ended or is still running after any number of rounds, and of every
  run that returns; the two turn profiles always return.
\<close>

theorem C10_stationary_prelog:
  "(\<forall>n. \<exists>r. run_linear_speed_profile_upto n w s = Some r \<and> prelogged LinearSpeed s r)
    \<and> (\<forall>s1. run_linear_speed_profile w s = Some s1 \<longrightarrow> prelogged LinearSpeed s s1)
    \<and> (\<exists>s2. run_angular_speed_profile w s = Some s2 \<and> prelogged AngularSpeed s s2)
    \<and> (\<exists>s3. run_static_turn_right_profile w s = Some s3 \<and> prelogged AngularSpeed s s3)"
proof (intro conjI allI impI)
  fix n
  from linear_upto_facts [of n w s]
  show "\<exists>r. run_linear_speed_profile_upto n w s = Some r \<and> prelogged LinearSpeed s r"
    by blast
next
  fix s1
  assume "run_linear_speed_profile w s = Some s1"
  from linear_facts [OF this] show "prelogged LinearSpeed s s1" by blast
next
  from angular_facts [of w s]
  show "\<exists>s2. run_angular_speed_profile w s = Some s2 \<and> prelogged AngularSpeed s s2"
    by blast
next
  from static_facts [of w s]
  show "\<exists>s3. run_static_turn_right_profile w s = Some s3 \<and> prelogged AngularSpeed s s3"
    by blast
qed

text \<open>
  C10 on the concrete world and on the world where the vehicle does not
  advance: there the linear profile never returns, and after three rounds of
  its travel loop its history still starts with the pre-log.
\<close>

theorem C10_stationary_prelog_witness:
  "(\<exists>s1. run_linear_speed_profile demo_world robot_idle = Some s1
        \<and> prelogged LinearSpeed robot_idle s1)
    \<and> run_linear_speed_profile (stuck_world demo_world) robot_idle = None
    \<and> (\<exists>r. run_linear_speed_profile_upto 3 (stuck_world demo_world) robot_idle = Some r
          \<and> prelogged LinearSpeed robot_idle r)
    \<and> (\<exists>s2. run_angular_speed_profile (stuck_world demo_world) robot_idle = Some s2
          \<and> prelogged AngularSpeed robot_idle s2)
    \<and> (\<exists>s3. run_static_turn_right_profile (stuck_world demo_world) robot_idle = Some s3
          \<and> prelogged AngularSpeed robot_idle s3)"
proof -
  from linear_run [OF demo_travel] obtain s1 where
    r: "run_linear_speed_profile demo_world robot_idle = Some s1" by blast
  with C10_stationary_prelog [of demo_world robot_idle]
  have "\<exists>s1. run_linear_speed_profile demo_world robot_idle = Some s1
        \<and> prelogged LinearSpeed robot_idle s1" by blast
  with C10_stationary_prelog [of "stuck_world demo_world" robot_idle]
    linear_stuck [of demo_world robot_idle]
  show ?thesis by blast
qed

text \<open>
  C7. The micrometers-per-count calibration always returns, with the linear
  acceleration, the linear deceleration and the maximum linear speed it was
  entered with. The front sensors calibration returns if its threshold is met
  at some first poll, and whenever it returns it has the linear acceleration
  it was entered with.
\<close>

theorem C7_configuration_restored:
  "linear_acceleration (run_micrometers_per_count_calibration w cells s) = linear_acceleration s
    \<and> linear_deceleration (run_micrometers_per_count_calibration w cells s) = linear_deceleration s
    \<and> max_linear_speed (run_micrometers_per_count_calibration w cells s) = max_linear_speed s
    \<and> (\<forall>k. (\<forall>j<k. approach_reading w s j < approach_threshold w s)
            \<and> approach_threshold w s \<le> approach_reading w s k \<longrightarrow>
         (\<exists>s'. run_front_sensors_calibration w s = Some s'
            \<and> linear_acceleration s' = linear_acceleration s))
    \<and> (\<forall>s'. run_front_sensors_calibration w s = Some s' \<longrightarrow>
          linear_acceleration s' = linear_acceleration s)"
proof (intro conjI allI impI)
  fix k
  assume "(\<forall>j<k. approach_reading w s j < approach_threshold w s)
            \<and> approach_threshold w s \<le> approach_reading w s k"
  then show "\<exists>s'. run_front_sensors_calibration w s = Some s'
            \<and> linear_acceleration s' = linear_acceleration s"
    using front_restores [of k w s] by blast
next
  fix s'
  assume "run_front_sensors_calibration w s = Some s'"
  from front_facts [OF this] show "linear_acceleration s' = linear_acceleration s" by blast
qed (simp_all add: mpc_run)

text \<open>
  C7 on the world where the vehicle does not advance (the front sensors
  calibration never returns there, the micrometers-per-count calibration
  restores its three values) and on the concrete world, where the front
  sensors calibration returns; the robot is entered with acceleration 2,
  deceleration 3 and maximum speed 1.
\<close>

theorem C7_configuration_restored_witness:
  "linear_acceleration (run_micrometers_per_count_calibration (stuck_world demo_world) 3 robot_idle) = 2
    \<and> linear_deceleration (run_micrometers_per_count_calibration (stuck_world demo_world) 3 robot_idle) = 3
    \<and> max_linear_speed (run_micrometers_per_count_calibration (stuck_world demo_world) 3 robot_idle) = 1
    \<and> run_front_sensors_calibration (stuck_world demo_world) robot_idle = None
    \<and> (\<exists>s'. run_front_sensors_calibration demo_world robot_idle = Some s'
          \<and> linear_acceleration s' = 2)"
proof -
  from demo_approach have
    "(\<forall>j<1. approach_reading demo_world robot_idle j < approach_threshold demo_world robot_idle)
       \<and> approach_threshold demo_world robot_idle \<le> approach_reading demo_world robot_idle 1"
    by blast
  with C7_configuration_restored [of demo_world 3 robot_idle]
  have "\<exists>s'. run_front_sensors_calibration demo_world robot_idle = Some s'
          \<and> linear_acceleration s' = linear_acceleration robot_idle" by blast
  moreover have "run_front_sensors_calibration (stuck_world demo_world) robot_idle = None"
    by (rule front_stuck) (simp add: demo_stuck_threshold)
  ultimately show ?thesis
    using C7_configuration_restored [of "stuck_world demo_world" 3 robot_idle]
    by (simp add: robot_idle_def)
qed

text \<open>
  C9 (as the code has it). In the linear profile, the angular profile, the
  static turn and the front sensors calibration, both walls controls are off at
  every call of the run and motor control is on from the second call on, so
  before and during all motion; for the two procedures with a loop this holds
  of every run, whether the loop has ended or is still running after any
  number of rounds. In the micrometers-per-count calibration the acceleration
  ramp runs with side sensors control on, front sensors control off and motor
  control on, and the deceleration ramp with both walls controls off and motor
  control on.
\<close>

theorem C9_controls_during_motion:
  "(\<forall>n. \<exists>r. run_linear_speed_profile_upto n w s = Some r \<and> walls_off_motor_on s r)
    \<and> (\<forall>s1. run_linear_speed_profile w s = Some s1 \<longrightarrow> walls_off_motor_on s s1)
    \<and> (\<exists>s2. run_angular_speed_profile w s = Some s2 \<and> walls_off_motor_on s s2)
    \<and> (\<exists>s3. run_static_turn_right_profile w s = Some s3 \<and> walls_off_motor_on s s3)
    \<and> (\<forall>n. \<exists>r. run_front_sensors_calibration_upto n w s = Some r \<and> walls_off_motor_on s r)
    \<and> (\<forall>s4. run_front_sensors_calibration w s = Some s4 \<longrightarrow> walls_off_motor_on s s4)
    \<and> ramps_controlled s (run_micrometers_per_count_calibration w cells s)"
proof (intro conjI allI impI)
  fix n
  from linear_upto_facts [of n w s]
  show "\<exists>r. run_linear_speed_profile_upto n w s = Some r \<and> walls_off_motor_on s r"
    by blast
next
  fix s1
  assume "run_linear_speed_profile w s = Some s1"
  from linear_facts [OF this] show "walls_off_motor_on s s1" by blast
next
  from angular_facts [of w s]
  show "\<exists>s2. run_angular_speed_profile w s = Some s2 \<and> walls_off_motor_on s s2"
    by blast
next
  from static_facts [of w s]
  show "\<exists>s3. run_static_turn_right_profile w s = Some s3 \<and> walls_off_motor_on s s3"
    by blast
next
  fix n
  show "\<exists>r. run_front_sensors_calibration_upto n w s = Some r \<and> walls_off_motor_on s r"
    by (rule front_upto_facts)
next
  fix s4
  assume "run_front_sensors_calibration w s = Some s4"
  from front_facts [OF this] show "walls_off_motor_on s s4" by blast
next
  show "ramps_controlled s (run_micrometers_per_count_calibration w cells s)"
    by (rule mpc_ramps)
qed

text \<open>
  C9 on the concrete world, where both looping procedures return, and on the
  world where the vehicle does not advance, where neither does.
\<close>

theorem C9_controls_during_motion_witness:
  "(\<exists>s1. run_linear_speed_profile demo_world robot_idle = Some s1
        \<and> walls_off_motor_on robot_idle s1)
    \<and> (\<exists>s4. run_front_sensors_calibration demo_world robot_idle = Some s4
        \<and> walls_off_motor_on robot_idle s4)
    \<and> run_linear_speed_profile (stuck_world demo_world) robot_idle = None
    \<and> run_front_sensors_calibration (stuck_world demo_world) robot_idle = None
    \<and> (\<exists>r. run_linear_speed_profile_upto 3 (stuck_world demo_world) robot_idle = Some r
          \<and> walls_off_motor_on robot_idle r)
    \<and> (\<exists>r. run_front_sensors_calibration_upto 3 (stuck_world demo_world) robot_idle = Some r
          \<and> walls_off_motor_on robot_idle r)
    \<and> (\<exists>s2. run_angular_speed_profile (stuck_world demo_world) robot_idle = Some s2
          \<and> walls_off_motor_on robot_idle s2)
    \<and> (\<exists>s3. run_static_turn_right_profile (stuck_world demo_world) robot_idle = Some s3
          \<and> walls_off_motor_on robot_idle s3)
    \<and> ramps_controlled robot_idle
          (run_micrometers_per_count_calibration (stuck_world demo_world) 3 robot_idle)"
proof -
  from linear_run [OF demo_travel] obtain s1 where
    r1: "run_linear_speed_profile demo_world robot_idle = Some s1" by blast
  from front_run [OF demo_approach] obtain s4 where
    r4: "run_front_sensors_calibration demo_world robot_idle = Some s4" by blast
  have n4: "run_front_sensors_calibration (stuck_world demo_world) robot_idle = None"
    by (rule front_stuck) (simp add: demo_stuck_threshold)
  from C9_controls_during_motion [of demo_world robot_idle 3] r1 r4
  have "(\<exists>s1. run_linear_speed_profile demo_world robot_idle = Some s1
        \<and> walls_off_motor_on robot_idle s1)
    \<and> (\<exists>s4. run_front_sensors_calibration demo_world robot_idle = Some s4
        \<and> walls_off_motor_on robot_idle s4)" by blast
  with C9_controls_during_motion [of "stuck_world demo_world" robot_idle 3]
    linear_stuck [of demo_world robot_idle] n4
  show ?thesis by blast
qed

text \<open>
  C9 fails as stated for the micrometers-per-count calibration: entered with
  both walls controls off, its first motion command is the ninth call,
  \<^verbatim>\<open>accelerate\<close>, and side sensors control is on when it is made.
\<close>

theorem C9_side_control_on_counterexample:
  "(let s = robot_idle\<lparr>side_sensors_control_on := False, front_sensors_control_on := False\<rparr>;
        h = new_history s (run_micrometers_per_count_calibration demo_world 3 s)
    in list_all (\<lambda>ob. \<not> is_motion_command (call ob)) (take 8 h)
       \<and> is_motion_command (call (h ! 8)) \<and> side_control (h ! 8))"
  by (simp add: new_history_def mpc_run observe_def entry_def robot_idle_def demo_world_def)

subsection \<open>The approach of the front sensors calibration\<close>

text \<open>
  C6. Front sensors calibration: the procedure commands zero angular speed and
  0.3 m/s linear speed; let \<open>k\<close> be the first poll of the approach loop at which
  the encoder reading is at least the target minus the stopping distance, the
  latter being the answer of \<^verbatim>\<open>required_micrometers_to_speed(0)\<close> converted to
  \<^verbatim>\<open>int32_t\<close>. Then the procedure returns, one calibration sample is logged
  after each of the \<open>k\<close> earlier polls, and zero target speed is commanded
  right after poll \<open>k\<close>.
\<close>

theorem C6_front_approach:
  assumes "\<forall>j<k. approach_reading w s j < approach_threshold w s"
    and "approach_threshold w s \<le> approach_reading w s k"
  shows "\<exists>s'. run_front_sensors_calibration w s = Some s'
    \<and> timeline s' = timeline s
        @ [(clock_ticks s, DisableWallsControl), (clock_ticks s, EnableMotorControl),
           (clock_ticks s, SetLinearAcceleration 4),
           (clock_ticks s, SetTargetAngularSpeed 0),
           (clock_ticks s, SetTargetLinearSpeed 0.3)]
        @ map (\<lambda>j. (clock_ticks s, Log FrontSensorsCalibration)) [0..<k]
        @ [(clock_ticks s, SetTargetAngularSpeed 0), (clock_ticks s, SetTargetLinearSpeed 0)]
        @ map (\<lambda>j. (clock_ticks s + j * 2, Log FrontSensorsCalibration)) [0..<100]
        @ [(clock_ticks s + 200, SetLinearAcceleration (linear_acceleration s)),
           (clock_ticks s + 200, ResetMotion)]
    \<and> encoder_polls s' = encoder_polls s + 1 + (k + 1)
    \<and> approach_threshold w s =
        sint (front_target_micrometers w (encoder_average w (encoder_polls s))
              - float_to_int32 w (required_micrometers_to_speed w 0))"
proof -
  from front_run [OF assms] obtain s' where
    "run_front_sensors_calibration w s = Some s'"
    "history s' = history s
        @ [(entry (clock_ticks s) DisableWallsControl)\<lparr>motor_control := motor_control_on s\<rparr>,
           entry (clock_ticks s) EnableMotorControl,
           entry (clock_ticks s) (SetLinearAcceleration 4),
           entry (clock_ticks s) (SetTargetAngularSpeed 0),
           entry (clock_ticks s) (SetTargetLinearSpeed 0.3)]
        @ map (\<lambda>j. entry (clock_ticks s) (Log FrontSensorsCalibration)) [0..<k]
        @ [entry (clock_ticks s) (SetTargetAngularSpeed 0),
           entry (clock_ticks s) (SetTargetLinearSpeed 0)]
        @ map (\<lambda>j. entry (clock_ticks s + j * 2) (Log FrontSensorsCalibration)) [0..<100]
        @ [entry (clock_ticks s + 200) (SetLinearAcceleration (linear_acceleration s)),
           entry (clock_ticks s + 200) ResetMotion]"
    "encoder_polls s' = encoder_polls s + k + 2"
    by blast
  then show ?thesis
    by (simp add: timeline_def entry_def o_def approach_threshold_def
        front_micrometers_to_stop_def)
qed

text \<open>
  C6 on the concrete world: the target is 234000, the stopping distance 34000,
  and the encoder reaches 200000 at poll 1 of the loop.
\<close>

theorem C6_front_approach_witness:
  "\<exists>s'. run_front_sensors_calibration demo_world robot_idle = Some s'
    \<and> timeline s' =
          [(0, DisableWallsControl), (0, EnableMotorControl), (0, SetLinearAcceleration 4),
           (0, SetTargetAngularSpeed 0), (0, SetTargetLinearSpeed 0.3),
           (0, Log FrontSensorsCalibration),
           (0, SetTargetAngularSpeed 0), (0, SetTargetLinearSpeed 0)]
        @ map (\<lambda>j. (j * 2, Log FrontSensorsCalibration)) [0..<100]
        @ [(200, SetLinearAcceleration 2), (200, ResetMotion)]
    \<and> encoder_polls s' = 3
    \<and> approach_threshold demo_world robot_idle = 200000"
  using C6_front_approach [OF demo_approach]
  by (simp add: robot_idle_def timeline_def demo_world_def front_target_micrometers_def
      required_micrometers_to_speed_def numeral_3_eq_3)

end
